theory Spec2Isabelle
  imports Main
begin

section \<open>Values read from and written to the memory file\<close>

text \<open>
  The knowledge graph manager of \<^verbatim>\<open>src/knowledge-graph.ts\<close> keeps its whole state in one
  file of JSON lines. The values \<^verbatim>\<open>JSON.parse\<close> produces are modelled by the datatype
  \<open>json\<close>. An object is the list of its properties in insertion order; where a key occurs
  twice the later binding is the one a property read sees, as in \<^verbatim>\<open>JSON.parse\<close> and in an
  object spread. No operation of the manager computes with a number, so a number is kept as
  an integer.
\<close>

datatype json =
    JNull
  | JBool bool
  | JNumber int
  | JString string
  | JArray "json list"
  | JObject "(string \<times> json) list"

text \<open>
  The errors the manager can raise: \<^verbatim>\<open>JSON.parse\<close> on a line that is not JSON
  (\<open>SyntaxError\<close>), a property read on \<^verbatim>\<open>null\<close> (\<open>TypeError\<close>), a failed schema
  check (\<open>ZodError\<close>) and the \<^verbatim>\<open>new Error(message)\<close> of \<^verbatim>\<open>addObservations\<close>.
\<close>

datatype error = SyntaxError | TypeError | ZodError | Error string

text \<open>Own property \<open>k\<close> of an object; \<open>None\<close> is \<^verbatim>\<open>undefined\<close>.\<close>

definition property :: "(string \<times> json) list \<Rightarrow> string \<Rightarrow> json option" where
  "property kvs k = map_of (rev kvs) k"

text \<open>
  \<^verbatim>\<open>item.type\<close> for a parsed line: reading a property of \<^verbatim>\<open>null\<close> throws, and a
  number, boolean, string or array has no property \<^verbatim>\<open>type\<close>.
\<close>

fun item_type :: "json \<Rightarrow> error + json option" where
  "item_type JNull = Inl TypeError"
| "item_type (JObject kvs) = Inr (property kvs ''type'')"
| "item_type _ = Inr None"

section \<open>The zod schemas\<close>

text \<open>
  The three schemas of the source use \<^verbatim>\<open>z.string()\<close>, \<^verbatim>\<open>z.array(_)\<close> and
  \<^verbatim>\<open>z.object({...})\<close>. \<open>zparse\<close> is \<^verbatim>\<open>schema.parse(value)\<close>: \<open>None\<close> when zod throws,
  otherwise the parsed value. An object schema in zod's default mode requires every key of
  its shape and builds its result from the keys of the shape only, in the order of the shape.
\<close>

datatype schema = ZString | ZArray schema | ZObject "(string \<times> schema) list"

fun all_some :: "'a option list \<Rightarrow> 'a list option" where
  "all_some [] = Some []"
| "all_some (None # xs) = None"
| "all_some (Some x # xs) = (case all_some xs of None \<Rightarrow> None | Some ys \<Rightarrow> Some (x # ys))"

fun zparse :: "schema \<Rightarrow> json \<Rightarrow> json option" where
  "zparse ZString j = (case j of JString s \<Rightarrow> Some (JString s) | _ \<Rightarrow> None)"
| "zparse (ZArray s) j =
     (case j of
        JArray xs \<Rightarrow> map_option JArray (all_some (map (zparse s) xs))
      | _ \<Rightarrow> None)"
| "zparse (ZObject shape) j =
     (case j of
        JObject kvs \<Rightarrow>
          map_option JObject
            (all_some
               (map (\<lambda>ks. case property kvs (fst ks) of
                             None \<Rightarrow> None
                           | Some v \<Rightarrow> map_option (Pair (fst ks)) (zparse (snd ks) v))
                  shape))
      | _ \<Rightarrow> None)"

definition EntitySchema :: schema where
  "EntitySchema =
     ZObject [(''name'', ZString), (''entityType'', ZString), (''observations'', ZArray ZString)]"

definition RelationSchema :: schema where
  "RelationSchema =
     ZObject [(''from'', ZString), (''to'', ZString), (''relationType'', ZString)]"

definition KnowledgeGraphSchema :: schema where
  "KnowledgeGraphSchema =
     ZObject [(''entities'', ZArray EntitySchema), (''relations'', ZArray RelationSchema)]"

section \<open>The types inferred from the schemas\<close>

record entity =
  name :: string
  entityType :: string
  observations :: "string list"

text \<open>\<open>from\<close> and \<open>to\<close> are written \<open>rel_from\<close> and \<open>rel_to\<close>.\<close>

record relation =
  rel_from :: string
  rel_to :: string
  relationType :: string

record knowledge_graph =
  entities :: "entity list"
  relations :: "relation list"

text \<open>
  The records are the objects zod returns, which have the fields of the schema and no
  other. An object a caller passes in is typed \<^verbatim>\<open>Entity\<close> or \<^verbatim>\<open>Relation\<close> too, but the
  code checks it with a schema that ignores other keys and then keeps the caller's object,
  not the parsed one: such an object is a \<open>json\<close> value and may have further own keys.
  A typed value as the JavaScript object it is:
\<close>

definition entity_json :: "entity \<Rightarrow> json" where
  "entity_json e =
     JObject [(''name'', JString (name e)), (''entityType'', JString (entityType e)),
              (''observations'', JArray (map JString (observations e)))]"

definition relation_json :: "relation \<Rightarrow> json" where
  "relation_json r =
     JObject [(''from'', JString (rel_from r)), (''to'', JString (rel_to r)),
              (''relationType'', JString (relationType r))]"

text \<open>The object \<^verbatim>\<open>{ entities: es, relations: rs }\<close>.\<close>

definition graph_object :: "json list \<Rightarrow> json list \<Rightarrow> json" where
  "graph_object es rs = JObject [(''entities'', JArray es), (''relations'', JArray rs)]"

definition graph_json :: "knowledge_graph \<Rightarrow> json" where
  "graph_json g =
     JObject [(''entities'', JArray (map entity_json (entities g))),
              (''relations'', JArray (map relation_json (relations g)))]"

text \<open>\<^verbatim>\<open>Object.keys(v)\<close>: the keys of an object, none for any other value.\<close>

fun keys :: "json \<Rightarrow> string list" where
  "keys (JObject kvs) = map fst kvs"
| "keys _ = []"

text \<open>
  A value that a schema accepts, read at the type \<^verbatim>\<open>z.infer\<close> gives it: \<open>name (as_entity e)\<close>
  is \<^verbatim>\<open>e.name\<close>. The fall-back branches are never taken on a value a schema accepts
  or returns (lemmas \<open>zparse_entity_parsed\<close>, \<open>zparse_relation_parsed\<close> and
  \<open>zparse_graph_typed\<close>).
\<close>

fun string_of :: "json \<Rightarrow> string" where
  "string_of (JString s) = s"
| "string_of _ = []"

fun elements_of :: "json \<Rightarrow> json list" where
  "elements_of (JArray xs) = xs"
| "elements_of _ = []"

fun field :: "json \<Rightarrow> string \<Rightarrow> json" where
  "field (JObject kvs) k = (case property kvs k of None \<Rightarrow> JNull | Some v \<Rightarrow> v)"
| "field _ k = JNull"

definition as_entity :: "json \<Rightarrow> entity" where
  "as_entity j =
     \<lparr>name = string_of (field j ''name''), entityType = string_of (field j ''entityType''),
      observations = map string_of (elements_of (field j ''observations''))\<rparr>"

definition as_relation :: "json \<Rightarrow> relation" where
  "as_relation j =
     \<lparr>rel_from = string_of (field j ''from''), rel_to = string_of (field j ''to''),
      relationType = string_of (field j ''relationType'')\<rparr>"

definition as_graph :: "json \<Rightarrow> knowledge_graph" where
  "as_graph j =
     \<lparr>entities = map as_entity (elements_of (field j ''entities'')),
      relations = map as_relation (elements_of (field j ''relations''))\<rparr>"

section \<open>The memory file\<close>

text \<open>
  The file is modelled after \<^verbatim>\<open>data.split("\n")\<close>: the list of its lines, each line as
  what \<^verbatim>\<open>line.trim() !== ""\<close> and \<^verbatim>\<open>JSON.parse(line)\<close> make of it. \<open>Blank\<close> is a line
  that trims to the empty string, \<open>Malformed\<close> a line on which \<^verbatim>\<open>JSON.parse\<close> throws,
  \<open>Record j\<close> a line that parses to \<open>j\<close>. A line written by \<^verbatim>\<open>JSON.stringify(v)\<close> is
  \<open>Record v\<close>. The storage is \<open>None\<close> while the file does not exist (\<^verbatim>\<open>ENOENT\<close>); other
  failures of the file system are not modelled.
\<close>

datatype line = Blank | Malformed | Record json

type_synonym storage = "line list option"

text \<open>
  \<^verbatim>\<open>lines.join("\n")\<close> read back by \<^verbatim>\<open>split("\n")\<close>: the join of no lines is the empty
  text, which splits into one empty line.
\<close>

definition join_lines :: "line list \<Rightarrow> line list" where
  "join_lines ls = (if ls = [] then [Blank] else ls)"

text \<open>The callback of \<^verbatim>\<open>lines.reduce\<close> in \<^verbatim>\<open>loadGraph\<close>, folded over the lines.\<close>

fun reduce_lines :: "line list \<Rightarrow> json list \<times> json list \<Rightarrow> error + json list \<times> json list" where
  "reduce_lines [] graph = Inr graph"
| "reduce_lines (Record item # ls) (es, rs) =
     (case item_type item of
        Inl err \<Rightarrow> Inl err
      | Inr t \<Rightarrow>
          reduce_lines ls
            (if t = Some (JString ''entity'') then es @ [item] else es,
             if t = Some (JString ''relation'') then rs @ [item] else rs))"
| "reduce_lines (l # ls) graph = Inl SyntaxError"

text \<open>
  \<^verbatim>\<open>loadGraph\<close>, with the value \<^verbatim>\<open>KnowledgeGraphSchema.parse(graph)\<close> returns kept as
  JSON (\<open>loadGraph_json\<close>) and read at its type (\<open>loadGraph\<close>).
\<close>

definition loadGraph_json :: "storage \<Rightarrow> error + json" where
  "loadGraph_json st =
     (case st of
        None \<Rightarrow> Inr (JObject [(''entities'', JArray []), (''relations'', JArray [])])
      | Some data \<Rightarrow>
          (case reduce_lines (filter (\<lambda>l. l \<noteq> Blank) data) ([], []) of
             Inl err \<Rightarrow> Inl err
           | Inr (es, rs) \<Rightarrow>
               (case zparse KnowledgeGraphSchema
                       (JObject [(''entities'', JArray es), (''relations'', JArray rs)]) of
                  None \<Rightarrow> Inl ZodError
                | Some graph \<Rightarrow> Inr graph)))"

definition loadGraph :: "storage \<Rightarrow> error + knowledge_graph" where
  "loadGraph st = (case loadGraph_json st of Inl err \<Rightarrow> Inl err | Inr j \<Rightarrow> Inr (as_graph j))"

text \<open>The parsed lines \<^verbatim>\<open>loadGraph\<close> pushes onto the list for the tag \<open>t\<close>.\<close>

fun tagged_items :: "string \<Rightarrow> line list \<Rightarrow> json list" where
  "tagged_items t [] = []"
| "tagged_items t (Record item # ls) =
     (if item_type item = Inr (Some (JString t)) then item # tagged_items t ls
      else tagged_items t ls)"
| "tagged_items t (l # ls) = tagged_items t ls"

text \<open>
  \<^verbatim>\<open>saveGraph\<close> (lines 151 to 160): the result is the outcome and the storage
  afterwards. The argument is the graph object the caller holds. It is checked against the
  schema and the parsed value is dropped; what is written for an entity \<open>e\<close> of the
  caller's object is \<^verbatim>\<open>{ type: "entity", ...e }\<close>, in which an own key \<open>type\<close> of \<open>e\<close>
  comes after the tag and so is the one read back.
\<close>

text \<open>
  The own properties an object spread copies. Only objects are spread here: every value
  that reaches the write has passed the entity or relation schema.
\<close>

fun spread :: "json \<Rightarrow> (string \<times> json) list" where
  "spread (JObject kvs) = kvs"
| "spread _ = []"

definition tagged :: "string \<Rightarrow> json \<Rightarrow> json" where
  "tagged t j = JObject ((''type'', JString t) # spread j)"

definition entity_record :: "entity \<Rightarrow> line" where
  "entity_record e = Record (tagged ''entity'' (entity_json e))"

definition relation_record :: "relation \<Rightarrow> line" where
  "relation_record r = Record (tagged ''relation'' (relation_json r))"

definition saveGraph :: "json \<Rightarrow> storage \<Rightarrow> (error + unit) \<times> storage" where
  "saveGraph graph st =
     (case zparse KnowledgeGraphSchema graph of
        None \<Rightarrow> (Inl ZodError, st)
      | Some _ \<Rightarrow>
          (Inr (),
           Some (join_lines
                   (map (\<lambda>e. Record (tagged ''entity'' e)) (elements_of (field graph ''entities'')) @
                    map (\<lambda>r. Record (tagged ''relation'' r))
                      (elements_of (field graph ''relations''))))))"

text \<open>
  The record written for \<open>e\<close> still carries the tag \<open>t\<close>: \<open>e\<close> has no own key
  \<open>type\<close>, or that key holds \<open>t\<close> itself.
\<close>

definition tag_kept :: "string \<Rightarrow> json \<Rightarrow> bool" where
  "tag_kept t e \<longleftrightarrow>
     (case property (spread e) ''type'' of None \<Rightarrow> True | Some v \<Rightarrow> v = JString t)"

text \<open>
  Every operation starts with \<^verbatim>\<open>await this.loadGraph()\<close> and every mutation ends with
  \<^verbatim>\<open>await this.saveGraph(graph)\<close>. An operation that throws leaves the storage as it is
  at that moment.
\<close>

definition load_then ::
  "storage \<Rightarrow> (knowledge_graph \<Rightarrow> (error + 'a) \<times> storage) \<Rightarrow> (error + 'a) \<times> storage" where
  "load_then st body = (case loadGraph st of Inl err \<Rightarrow> (Inl err, st) | Inr graph \<Rightarrow> body graph)"

definition save_return :: "json \<Rightarrow> storage \<Rightarrow> 'a \<Rightarrow> (error + 'a) \<times> storage" where
  "save_return graph st result =
     (case saveGraph graph st of
        (Inl err, st') \<Rightarrow> (Inl err, st')
      | (Inr _, st') \<Rightarrow> (Inr result, st'))"

section \<open>Reading\<close>

text \<open>\<^verbatim>\<open>readGraph\<close>, \<^verbatim>\<open>searchNodes\<close> and \<^verbatim>\<open>openNodes\<close> (lines 52 to 113 of the source).\<close>

definition readGraph :: "storage \<Rightarrow> error + knowledge_graph" where
  "readGraph st = loadGraph st"

text \<open>
  JavaScript's \<^verbatim>\<open>String.prototype.toLowerCase\<close> is not in the source. Its case mapping
  is the parameter \<open>lc\<close> of \<open>toLowerCase\<close> and of everything that searches, and nothing
  is assumed of it; the empty string, which has no character to map, stays empty.
  \<open>str_includes s q\<close> is \<^verbatim>\<open>s.includes(q)\<close> on strings.
\<close>

definition toLowerCase :: "(string \<Rightarrow> string) \<Rightarrow> string \<Rightarrow> string" where
  "toLowerCase lc s = (if s = [] then [] else lc s)"

fun startsWith :: "string \<Rightarrow> string \<Rightarrow> bool" where
  "startsWith s [] = True"
| "startsWith [] (c # q) = False"
| "startsWith (a # s) (c # q) = (a = c \<and> startsWith s q)"

fun str_includes :: "string \<Rightarrow> string \<Rightarrow> bool" where
  "str_includes [] q = (q = [])"
| "str_includes (a # s) q = (startsWith (a # s) q \<or> str_includes s q)"

definition matches :: "(string \<Rightarrow> string) \<Rightarrow> string \<Rightarrow> entity \<Rightarrow> bool" where
  "matches lc query e \<longleftrightarrow>
     str_includes (toLowerCase lc (name e)) (toLowerCase lc query) \<or>
     str_includes (toLowerCase lc (entityType e)) (toLowerCase lc query) \<or>
     list_ex (\<lambda>ob. str_includes (toLowerCase lc ob) (toLowerCase lc query)) (observations e)"

text \<open>The relations between the filtered entities, as both read operations compute them.\<close>

definition between :: "entity list \<Rightarrow> relation list \<Rightarrow> relation list" where
  "between filteredEntities rs =
     (let filteredEntityNames = set (map name filteredEntities)
      in filter (\<lambda>r. rel_from r \<in> filteredEntityNames \<and> rel_to r \<in> filteredEntityNames) rs)"

definition searchNodes ::
  "(string \<Rightarrow> string) \<Rightarrow> string \<Rightarrow> storage \<Rightarrow> error + knowledge_graph" where
  "searchNodes lc query st =
     (case loadGraph st of
        Inl err \<Rightarrow> Inl err
      | Inr graph \<Rightarrow>
          (let filteredEntities = filter (matches lc query) (entities graph);
               filteredRelations = between filteredEntities (relations graph)
           in Inr \<lparr>entities = filteredEntities, relations = filteredRelations\<rparr>))"

definition openNodes :: "string list \<Rightarrow> storage \<Rightarrow> error + knowledge_graph" where
  "openNodes names st =
     (case loadGraph st of
        Inl err \<Rightarrow> Inl err
      | Inr graph \<Rightarrow>
          (let filteredEntities = filter (\<lambda>e. name e \<in> set names) (entities graph);
               filteredRelations = between filteredEntities (relations graph)
           in Inr \<lparr>entities = filteredEntities, relations = filteredRelations\<rparr>))"

section \<open>Creating\<close>

text \<open>
  \<^verbatim>\<open>createEntities\<close> and \<^verbatim>\<open>createRelations\<close> (lines 165 to 199). The input is the list
  of the caller's objects. Each is checked against its schema, which throws on the first
  that fails; the parsed values are dropped. The objects whose name, or triple, is not
  in the loaded graph are pushed onto the graph as they are, the graph is saved, and those
  objects are returned. \<open>e.name\<close> of a checked object is \<open>name (as_entity e)\<close>.
\<close>

definition createEntities :: "json list \<Rightarrow> storage \<Rightarrow> (error + json list) \<times> storage" where
  "createEntities es st =
     (if list_ex (\<lambda>e. zparse EntitySchema e = None) es then (Inl ZodError, st)
      else
        load_then st (\<lambda>graph.
          let newEntities =
                filter (\<lambda>e. \<not> list_ex (\<lambda>existingEntity. name existingEntity = name (as_entity e))
                                    (entities graph)) es
          in save_return
               (graph_object (map entity_json (entities graph) @ newEntities)
                  (map relation_json (relations graph))) st newEntities))"

definition same_triple :: "relation \<Rightarrow> relation \<Rightarrow> bool" where
  "same_triple a b \<longleftrightarrow>
     rel_from a = rel_from b \<and> rel_to a = rel_to b \<and> relationType a = relationType b"

definition createRelations :: "json list \<Rightarrow> storage \<Rightarrow> (error + json list) \<times> storage" where
  "createRelations rs st =
     (if list_ex (\<lambda>r. zparse RelationSchema r = None) rs then (Inl ZodError, st)
      else
        load_then st (\<lambda>graph.
          let newRelations =
                filter (\<lambda>r. \<not> list_ex (\<lambda>existingRelation.
                                             same_triple existingRelation (as_relation r))
                                    (relations graph)) rs
          in save_return
               (graph_object (map entity_json (entities graph))
                  (map relation_json (relations graph) @ newRelations)) st newRelations))"

section \<open>Observations\<close>

text \<open>
  The argument and result objects of \<^verbatim>\<open>addObservations\<close> and the argument objects of
  \<^verbatim>\<open>deleteObservations\<close>; the fields \<^verbatim>\<open>entityName\<close> and \<^verbatim>\<open>observations\<close> of the last
  two carry a prefix to keep them apart.
\<close>

record observation_update =
  entityName :: string
  contents :: "string list"

record observation_result =
  result_entityName :: string
  addedObservations :: "string list"

record observation_deletion =
  deletion_entityName :: string
  deletion_observations :: "string list"

text \<open>
  \<^verbatim>\<open>graph.entities.find(p)\<close> returns the first entity that satisfies \<open>p\<close>, and the code
  then changes that object in place: \<open>mutate_first p f\<close> is the entity list afterwards.
\<close>

fun mutate_first :: "('a \<Rightarrow> bool) \<Rightarrow> ('a \<Rightarrow> 'a) \<Rightarrow> 'a list \<Rightarrow> 'a list" where
  "mutate_first p f [] = []"
| "mutate_first p f (x # xs) = (if p x then f x # xs else x # mutate_first p f xs)"

definition add_observation ::
  "observation_update \<Rightarrow> entity list \<Rightarrow> error + observation_result \<times> entity list" where
  "add_observation u es =
     (case find (\<lambda>e. name e = entityName u) es of
        None \<Rightarrow> Inl (Error (''Entity with name '' @ entityName u @ '' not found''))
      | Some entity \<Rightarrow>
          (let newObservations =
                 filter (\<lambda>content. content \<notin> set (observations entity)) (contents u)
           in Inr (\<lparr>result_entityName = entityName u, addedObservations = newObservations\<rparr>,
                   mutate_first (\<lambda>e. name e = entityName u)
                     (\<lambda>e. e\<lparr>observations := observations e @ newObservations\<rparr>) es)))"

text \<open>The \<^verbatim>\<open>observations.map\<close> of \<^verbatim>\<open>addObservations\<close>, stopped by the first throw.\<close>

fun add_all ::
  "observation_update list \<Rightarrow> entity list \<Rightarrow> error + observation_result list \<times> entity list" where
  "add_all [] es = Inr ([], es)"
| "add_all (u # us) es =
     (case add_observation u es of
        Inl err \<Rightarrow> Inl err
      | Inr (r, es') \<Rightarrow>
          (case add_all us es' of
             Inl err \<Rightarrow> Inl err
           | Inr (rs, es'') \<Rightarrow> Inr (r # rs, es'')))"

definition addObservations ::
  "observation_update list \<Rightarrow> storage \<Rightarrow> (error + observation_result list) \<times> storage" where
  "addObservations us st =
     load_then st (\<lambda>graph.
       case add_all us (entities graph) of
         Inl err \<Rightarrow> (Inl err, st)
       | Inr (results, es) \<Rightarrow> save_return (graph_json (graph\<lparr>entities := es\<rparr>)) st results)"

definition delete_observation :: "observation_deletion \<Rightarrow> entity list \<Rightarrow> entity list" where
  "delete_observation d es =
     mutate_first (\<lambda>e. name e = deletion_entityName d)
       (\<lambda>e. e\<lparr>observations :=
                 filter (\<lambda>ob. ob \<notin> set (deletion_observations d)) (observations e)\<rparr>) es"

definition deleteObservations ::
  "observation_deletion list \<Rightarrow> storage \<Rightarrow> (error + unit) \<times> storage" where
  "deleteObservations ds st =
     load_then st (\<lambda>graph.
       save_return
         (graph_json
            (graph\<lparr>entities := foldl (\<lambda>es d. delete_observation d es) (entities graph) ds\<rparr>))
         st ())"

section \<open>Deleting\<close>

text \<open>
  \<^verbatim>\<open>deleteEntities\<close> (lines 226 to 235) and \<^verbatim>\<open>deleteRelations\<close> (lines 258 to 273). The
  relations given to \<^verbatim>\<open>deleteRelations\<close> are the caller's objects, checked against the
  schema and then only compared with the loaded relations.
\<close>

definition deleteEntities :: "string list \<Rightarrow> storage \<Rightarrow> (error + unit) \<times> storage" where
  "deleteEntities entityNames st =
     load_then st (\<lambda>graph.
       save_return
         (graph_json
            (graph\<lparr>entities := filter (\<lambda>e. name e \<notin> set entityNames) (entities graph),
                   relations := filter (\<lambda>r. rel_from r \<notin> set entityNames \<and>
                                            rel_to r \<notin> set entityNames)
                                  (relations graph)\<rparr>)) st ())"

definition deleteRelations :: "json list \<Rightarrow> storage \<Rightarrow> (error + unit) \<times> storage" where
  "deleteRelations rs st =
     (if list_ex (\<lambda>r. zparse RelationSchema r = None) rs then (Inl ZodError, st)
      else
        load_then st (\<lambda>graph.
          save_return
            (graph_json
               (graph\<lparr>relations :=
                         filter (\<lambda>r. \<not> list_ex (\<lambda>delRelation.
                                                      same_triple r (as_relation delRelation)) rs)
                           (relations graph)\<rparr>)) st ()))"

section \<open>Case-insensitive substrings\<close>


text \<open>
  A case map for concrete runs: it lower-cases the letters \<open>A\<close> to \<open>Z\<close> and nothing else.
  It stands for the parameter \<open>lc\<close> only where a closed term is needed; no theorem
  depends on it.
\<close>

definition ascii_lower :: "string \<Rightarrow> string" where
  "ascii_lower s =
     map (\<lambda>c. case map_of (zip ''ABCDEFGHIJKLMNOPQRSTUVWXYZ'' ''abcdefghijklmnopqrstuvwxyz'') c of
                None \<Rightarrow> c
              | Some l \<Rightarrow> l) s"

section \<open>The invariants of the data model\<close>

text \<open>
  Entity names are unique within the entity collection, and relation triples
  \<open>(from, to, relationType)\<close> are unique within the relation collection.
\<close>

definition triple :: "relation \<Rightarrow> string \<times> string \<times> string" where
  "triple r = (rel_from r, rel_to r, relationType r)"

definition unique_names :: "knowledge_graph \<Rightarrow> bool" where
  "unique_names g \<longleftrightarrow> distinct (map name (entities g))"

definition unique_triples :: "knowledge_graph \<Rightarrow> bool" where
  "unique_triples g \<longleftrightarrow> distinct (map triple (relations g))"

definition graph_invariant :: "knowledge_graph \<Rightarrow> bool" where
  "graph_invariant g \<longleftrightarrow> unique_names g \<and> unique_triples g"

section \<open>Schemas and the objects they accept\<close>

text \<open>The definitions a concrete run unfolds.\<close>

lemmas eval_defs = loadGraph_def loadGraph_json_def KnowledgeGraphSchema_def EntitySchema_def
  RelationSchema_def property_def as_graph_def as_entity_def as_relation_def
  entity_record_def relation_record_def tagged_def entity_json_def relation_json_def
  graph_json_def graph_object_def saveGraph_def join_lines_def load_then_def save_return_def
  readGraph_def

lemma all_some_fixed:
  "(\<And>x. x \<in> set xs \<Longrightarrow> f (g x) = Some (h x)) \<Longrightarrow>
   all_some (map (f \<circ> g) xs) = Some (map h xs)"
  by (induction xs) auto

lemma all_some_map:
  "(\<And>x. x \<in> set xs \<Longrightarrow> f x = Some (h x)) \<Longrightarrow> all_some (map f xs) = Some (map h xs)"
  by (induction xs) auto

lemma all_some_Cons:
  "all_some (y # ys) =
     (case y of None \<Rightarrow> None
      | Some x \<Rightarrow> (case all_some ys of None \<Rightarrow> None | Some xs \<Rightarrow> Some (x # xs)))"
  by (cases y) simp_all

lemma all_some_None: "x \<in> set xs \<Longrightarrow> f x = None \<Longrightarrow> all_some (map f xs) = None"
  by (induction xs) (auto simp: all_some_Cons split: option.splits)

lemma all_some_Some:
  "all_some (map f xs) = Some ys \<Longrightarrow>
   length ys = length xs \<and> (\<forall>i<length xs. f (xs ! i) = Some (ys ! i))"
proof (induction xs arbitrary: ys)
  case Nil
  then show ?case by simp
next
  case (Cons x xs)
  from Cons.prems obtain y ys' where y: "f x = Some y" and ys': "all_some (map f xs) = Some ys'"
    and ys: "ys = y # ys'"
    by (auto simp: all_some_Cons split: option.splits)
  from Cons.IH [OF ys'] y ys show ?case
    by (auto simp: nth_Cons split: nat.splits)
qed

lemma all_some_image:
  assumes "all_some (map f xs) = Some ys" and "y \<in> set ys"
  shows "\<exists>x\<in>set xs. f x = Some y"
proof -
  from assms(2) obtain i where i: "i < length ys" "ys ! i = y"
    by (auto simp: in_set_conv_nth)
  with all_some_Some [OF assms(1)] have "i < length xs" "f (xs ! i) = Some y" by auto
  then show ?thesis by (metis nth_mem)
qed

lemma all_some_defined:
  "all_some (map f xs) \<noteq> None \<longleftrightarrow> (\<forall>x\<in>set xs. f x \<noteq> None)"
  by (induction xs) (auto simp: all_some_Cons split: option.splits)

lemma zparse_entity_json: "zparse EntitySchema (entity_json e) = Some (entity_json e)"
  by (simp add: EntitySchema_def entity_json_def property_def all_some_fixed)

lemma zparse_relation_json: "zparse RelationSchema (relation_json r) = Some (relation_json r)"
  by (simp add: RelationSchema_def relation_json_def property_def)

lemma zparse_graph_json: "zparse KnowledgeGraphSchema (graph_json g) = Some (graph_json g)"
  by (simp add: KnowledgeGraphSchema_def graph_json_def property_def
      all_some_fixed zparse_entity_json zparse_relation_json)

lemma as_entity_json: "as_entity (entity_json e) = e"
  by (simp add: as_entity_def entity_json_def property_def comp_def)

lemma as_relation_json: "as_relation (relation_json e) = e"
  by (simp add: as_relation_def relation_json_def property_def)

lemma as_graph_json: "as_graph (graph_json g) = g"
  by (simp add: as_graph_def graph_json_def property_def comp_def as_entity_json as_relation_json)

text \<open>What a schema returns for an object it accepts is the typed reading of that object.\<close>

lemma zparse_string_parsed:
  "zparse ZString v = Some w \<Longrightarrow> w = JString (string_of v) \<and> v = JString (string_of v)"
  by (cases v) auto

lemma zparse_strings_parsed:
  assumes "zparse (ZArray ZString) v = Some w"
  shows "w = JArray (map JString (map string_of (elements_of v)))"
proof -
  from assms obtain xs ys where v: "v = JArray xs"
    and ys: "all_some (map (zparse ZString) xs) = Some ys" and w: "w = JArray ys"
    by (cases v) auto
  have "length ys = length xs" and "\<forall>i<length xs. ys ! i = JString (string_of (xs ! i))"
    using all_some_Some [OF ys] zparse_string_parsed by auto
  then have "ys = map JString (map string_of xs)"
    by (simp add: list_eq_iff_nth_eq)
  with v w show ?thesis by simp
qed

lemma zparse_entity_parsed:
  assumes "zparse EntitySchema v = Some w"
  shows "w = entity_json (as_entity v)"
proof -
  from assms obtain kvs a b c a' b' c' where v: "v = JObject kvs"
    and pa: "property kvs ''name'' = Some a" and a: "zparse ZString a = Some a'"
    and pb: "property kvs ''entityType'' = Some b" and b: "zparse ZString b = Some b'"
    and pc: "property kvs ''observations'' = Some c" and c: "zparse (ZArray ZString) c = Some c'"
    and w: "w = JObject [(''name'', a'), (''entityType'', b'), (''observations'', c')]"
    by (cases v) (auto simp: EntitySchema_def all_some_Cons split: option.splits)
  from zparse_string_parsed [OF a] zparse_string_parsed [OF b] zparse_strings_parsed [OF c]
  show ?thesis
    by (simp add: w v pa pb pc entity_json_def as_entity_def)
qed

lemma zparse_relation_parsed:
  assumes "zparse RelationSchema v = Some w"
  shows "w = relation_json (as_relation v)"
proof -
  from assms obtain kvs a b c a' b' c' where v: "v = JObject kvs"
    and pa: "property kvs ''from'' = Some a" and a: "zparse ZString a = Some a'"
    and pb: "property kvs ''to'' = Some b" and b: "zparse ZString b = Some b'"
    and pc: "property kvs ''relationType'' = Some c" and c: "zparse ZString c = Some c'"
    and w: "w = JObject [(''from'', a'), (''to'', b'), (''relationType'', c')]"
    by (cases v) (auto simp: RelationSchema_def all_some_Cons split: option.splits)
  from zparse_string_parsed [OF a] zparse_string_parsed [OF b] zparse_string_parsed [OF c]
  show ?thesis
    by (simp add: w v pa pb pc relation_json_def as_relation_def)
qed

lemma zparse_entity_valid:
  "zparse EntitySchema v \<noteq> None \<Longrightarrow> zparse EntitySchema v = Some (entity_json (as_entity v))"
  using zparse_entity_parsed by fastforce

lemma zparse_relation_valid:
  "zparse RelationSchema v \<noteq> None \<Longrightarrow> zparse RelationSchema v = Some (relation_json (as_relation v))"
  using zparse_relation_parsed by fastforce

text \<open>The tag put before the spread changes no key a schema reads.\<close>

lemma property_tagged:
  "k \<noteq> ''type'' \<Longrightarrow> property ((''type'', t) # kvs) k = property kvs k"
  by (simp add: property_def map_add_def split: option.splits)

lemma zparse_tagged_entity: "zparse EntitySchema (tagged t e) = zparse EntitySchema e"
  by (cases e) (simp_all add: EntitySchema_def tagged_def property_tagged, simp_all add: property_def)

lemma zparse_tagged_relation: "zparse RelationSchema (tagged t r) = zparse RelationSchema r"
  by (cases r) (simp_all add: RelationSchema_def tagged_def property_tagged, simp_all add: property_def)

lemma item_type_tagged: "item_type (tagged t e) = Inr (Some (JString t)) \<longleftrightarrow> tag_kept t e"
  by (auto simp: tagged_def tag_kept_def property_def map_add_def split: option.splits)

lemma item_type_tag_kept: "tag_kept t e \<Longrightarrow> item_type (tagged t e) = Inr (Some (JString t))"
  by (simp add: item_type_tagged)

lemma tag_kept_entity_json: "tag_kept t (entity_json e)"
  by (simp add: tag_kept_def entity_json_def property_def)

lemma tag_kept_relation_json: "tag_kept t (relation_json r)"
  by (simp add: tag_kept_def relation_json_def property_def)

lemma reduce_entity_objects:
  "\<forall>e\<in>set es. tag_kept ''entity'' e \<Longrightarrow>
   reduce_lines (map (\<lambda>e. Record (tagged ''entity'' e)) es @ ls) (a, b) =
   reduce_lines ls (a @ map (tagged ''entity'') es, b)"
  by (induction es arbitrary: a) (simp_all add: item_type_tag_kept)

lemma reduce_relation_objects:
  "\<forall>r\<in>set rs. tag_kept ''relation'' r \<Longrightarrow>
   reduce_lines (map (\<lambda>r. Record (tagged ''relation'' r)) rs @ ls) (a, b) =
   reduce_lines ls (a, b @ map (tagged ''relation'') rs)"
  by (induction rs arbitrary: b) (simp_all add: item_type_tag_kept)

lemma nonblank_objects:
  "filter (\<lambda>l. l \<noteq> Blank)
     (join_lines (map (\<lambda>e. Record (tagged ''entity'' e)) es @
                  map (\<lambda>r. Record (tagged ''relation'' r)) rs)) =
   map (\<lambda>e. Record (tagged ''entity'' e)) es @ map (\<lambda>r. Record (tagged ''relation'' r)) rs"
  by (auto simp: join_lines_def filter_id_conv)

lemma loadGraph_json_objects:
  assumes "\<forall>e\<in>set es. zparse EntitySchema e \<noteq> None \<and> tag_kept ''entity'' e"
    and "\<forall>r\<in>set rs. zparse RelationSchema r \<noteq> None \<and> tag_kept ''relation'' r"
  shows "loadGraph_json
           (Some (join_lines (map (\<lambda>e. Record (tagged ''entity'' e)) es @
                              map (\<lambda>r. Record (tagged ''relation'' r)) rs))) =
         Inr (graph_json \<lparr>entities = map as_entity es, relations = map as_relation rs\<rparr>)"
proof -
  from assms have kept: "\<forall>e\<in>set es. tag_kept ''entity'' e" "\<forall>r\<in>set rs. tag_kept ''relation'' r"
    by auto
  have "reduce_lines (map (\<lambda>e. Record (tagged ''entity'' e)) es @
                      map (\<lambda>r. Record (tagged ''relation'' r)) rs @ []) ([], []) =
        Inr (map (tagged ''entity'') es, map (tagged ''relation'') rs)"
    unfolding reduce_entity_objects [OF kept(1)] reduce_relation_objects [OF kept(2)] by simp
  moreover have "all_some (map (zparse EntitySchema) (map (tagged ''entity'') es)) =
                 Some (map entity_json (map as_entity es))"
    using assms(1) unfolding map_map
    by (intro all_some_fixed) (simp add: zparse_tagged_entity zparse_entity_valid)
  moreover have "all_some (map (zparse RelationSchema) (map (tagged ''relation'') rs)) =
                 Some (map relation_json (map as_relation rs))"
    using assms(2) unfolding map_map
    by (intro all_some_fixed) (simp add: zparse_tagged_relation zparse_relation_valid)
  ultimately show ?thesis
    by (simp add: loadGraph_json_def nonblank_objects KnowledgeGraphSchema_def property_def
        graph_json_def del: map_map)
qed

lemma loadGraph_objects:
  assumes "\<forall>e\<in>set es. zparse EntitySchema e \<noteq> None \<and> tag_kept ''entity'' e"
    and "\<forall>r\<in>set rs. zparse RelationSchema r \<noteq> None \<and> tag_kept ''relation'' r"
  shows "loadGraph
           (Some (join_lines (map (\<lambda>e. Record (tagged ''entity'' e)) es @
                              map (\<lambda>r. Record (tagged ''relation'' r)) rs))) =
         Inr \<lparr>entities = map as_entity es, relations = map as_relation rs\<rparr>"
  by (simp add: loadGraph_def loadGraph_json_objects [OF assms] as_graph_json)


lemma zparse_graph_object:
  "zparse KnowledgeGraphSchema (graph_object es rs) \<noteq> None \<longleftrightarrow>
     (\<forall>e\<in>set es. zparse EntitySchema e \<noteq> None) \<and> (\<forall>r\<in>set rs. zparse RelationSchema r \<noteq> None)"
proof -
  have "all_some (map (zparse EntitySchema) es) \<noteq> None \<longleftrightarrow> (\<forall>e\<in>set es. zparse EntitySchema e \<noteq> None)"
    by (rule all_some_defined)
  moreover have "all_some (map (zparse RelationSchema) rs) \<noteq> None \<longleftrightarrow>
                 (\<forall>r\<in>set rs. zparse RelationSchema r \<noteq> None)"
    by (rule all_some_defined)
  ultimately show ?thesis
    by (auto simp: KnowledgeGraphSchema_def graph_object_def property_def all_some_Cons
        split: option.splits)
qed

lemma saveGraph_valid:
  assumes "zparse KnowledgeGraphSchema g \<noteq> None"
  shows "saveGraph g st =
           (Inr (),
            Some (join_lines
                    (map (\<lambda>e. Record (tagged ''entity'' e)) (elements_of (field g ''entities'')) @
                     map (\<lambda>r. Record (tagged ''relation'' r)) (elements_of (field g ''relations'')))))"
  using assms by (auto simp: saveGraph_def)

lemma graph_object_fields:
  "elements_of (field (graph_object es rs) ''entities'') = es"
  "elements_of (field (graph_object es rs) ''relations'') = rs"
  by (simp_all add: graph_object_def property_def)

text \<open>Saving a graph of zod's objects, as every operation but the two creating ones does.\<close>

lemma graph_json_object:
  "graph_json g = graph_object (map entity_json (entities g)) (map relation_json (relations g))"
  by (simp add: graph_json_def graph_object_def)

lemma map_entity_record:
  "map entity_record es = map (\<lambda>e. Record (tagged ''entity'' e)) (map entity_json es)"
  by (simp add: entity_record_def)

lemma map_relation_record:
  "map relation_record rs = map (\<lambda>r. Record (tagged ''relation'' r)) (map relation_json rs)"
  by (simp add: relation_record_def)

lemma saveGraph_eq:
  "saveGraph (graph_json g) st =
   (Inr (), Some (join_lines (map entity_record (entities g) @ map relation_record (relations g))))"
proof -
  have "zparse KnowledgeGraphSchema (graph_json g) \<noteq> None" by (simp add: zparse_graph_json)
  from saveGraph_valid [OF this] show ?thesis
    unfolding map_entity_record map_relation_record
    by (simp add: graph_json_object graph_object_fields)
qed

lemma loadGraph_saved: "loadGraph (snd (saveGraph (graph_json g) st)) = Inr g"
proof -
  have "loadGraph (Some (join_lines
           (map (\<lambda>e. Record (tagged ''entity'' e)) (map entity_json (entities g)) @
            map (\<lambda>r. Record (tagged ''relation'' r)) (map relation_json (relations g))))) =
        Inr \<lparr>entities = map as_entity (map entity_json (entities g)),
             relations = map as_relation (map relation_json (relations g))\<rparr>"
    by (rule loadGraph_objects)
      (simp_all add: zparse_entity_json zparse_relation_json tag_kept_entity_json
        tag_kept_relation_json)
  moreover have "map as_entity (map entity_json (entities g)) = entities g"
    by (simp add: comp_def as_entity_json)
  moreover have "map as_relation (map relation_json (relations g)) = relations g"
    by (simp add: comp_def as_relation_json)
  ultimately show ?thesis
    unfolding saveGraph_eq snd_conv map_entity_record map_relation_record by simp
qed

section \<open>Round trip through the file\<close>




section \<open>Adding observations\<close>

lemma find_name_None: "find (\<lambda>e. name e = n) es = None \<longleftrightarrow> n \<notin> name ` set es"
  by (induction es) auto

lemma mutate_first_names:
  "(\<And>x. name (f x) = name x) \<Longrightarrow> map name (mutate_first p f es) = map name es"
  by (induction es) auto

lemma add_observation_names:
  "add_observation u es = Inr (r, es') \<Longrightarrow> map name es' = map name es"
  by (auto simp: add_observation_def Let_def mutate_first_names split: option.splits)

lemma add_observation_absent:
  "entityName u \<notin> name ` set es \<Longrightarrow>
   add_observation u es = Inl (Error (''Entity with name '' @ entityName u @ '' not found''))"
  using find_name_None [of "entityName u" es] by (simp add: add_observation_def)

lemma add_observation_present:
  "entityName u \<in> name ` set es \<Longrightarrow> \<exists>r es'. add_observation u es = Inr (r, es')"
  using find_name_None [of "entityName u" es]
  by (auto simp: add_observation_def Let_def split: option.splits)

lemma add_all_first_absent:
  "find (\<lambda>u. entityName u \<notin> name ` set es) us = Some m \<Longrightarrow>
   add_all us es = Inl (Error (''Entity with name '' @ entityName m @ '' not found''))"
proof (induction us arbitrary: es)
  case Nil
  then show ?case by simp
next
  case (Cons u us)
  show ?case
  proof (cases "entityName u \<in> name ` set es")
    case False
    with Cons.prems have "m = u" by simp
    with False show ?thesis by (simp add: add_observation_absent)
  next
    case True
    then obtain r es' where step: "add_observation u es = Inr (r, es')"
      using add_observation_present by blast
    then have "set (map name es') = set (map name es)"
      using add_observation_names by metis
    then have same: "name ` set es' = name ` set es" by simp
    from True Cons.prems have "find (\<lambda>u. entityName u \<notin> name ` set es') us = Some m"
      by (simp add: same)
    then have "add_all us es' = Inl (Error (''Entity with name '' @ entityName m @ '' not found''))"
      by (rule Cons.IH)
    with step show ?thesis by simp
  qed
qed

text \<open>
  C2. When the stored graph loads and some update of the batch names an entity that is
  not in it, \<^verbatim>\<open>addObservations\<close> fails with the error whose message names the first
  such entity of the batch, the storage is left as it was, and \<^verbatim>\<open>readGraph\<close> afterwards
  returns the graph from before the call, also when earlier updates of the batch had
  been applied in memory.
\<close>

theorem addObservations_missing_entity:
  assumes "loadGraph st = Inr g"
    and "u \<in> set us" and "entityName u \<notin> name ` set (entities g)"
  shows "\<exists>m. find (\<lambda>u. entityName u \<notin> name ` set (entities g)) us = Some m \<and>
             addObservations us st =
               (Inl (Error (''Entity with name '' @ entityName m @ '' not found'')), st) \<and>
             readGraph (snd (addObservations us st)) = Inr g"
proof -
  from assms(2,3) obtain m where m: "find (\<lambda>u. entityName u \<notin> name ` set (entities g)) us = Some m"
    by (cases "find (\<lambda>u. entityName u \<notin> name ` set (entities g)) us") (auto simp: find_None_iff)
  then have "add_all us (entities g) = Inl (Error (''Entity with name '' @ entityName m @ '' not found''))"
    by (rule add_all_first_absent)
  with assms(1) have "addObservations us st =
      (Inl (Error (''Entity with name '' @ entityName m @ '' not found'')), st)"
    by (simp add: addObservations_def load_then_def)
  with m assms(1) show ?thesis by (simp add: readGraph_def)
qed

theorem addObservations_missing_entity_witness:
  "addObservations
     [\<lparr>entityName = ''Alice'', contents = [''likes tea'']\<rparr>,
      \<lparr>entityName = ''Ghost'', contents = [''x'']\<rparr>]
     (Some [entity_record \<lparr>name = ''Alice'', entityType = ''person'', observations = []\<rparr>]) =
   (Inl (Error ''Entity with name Ghost not found''),
    Some [entity_record \<lparr>name = ''Alice'', entityType = ''person'', observations = []\<rparr>]) \<and>
   readGraph (snd (addObservations
     [\<lparr>entityName = ''Alice'', contents = [''likes tea'']\<rparr>,
      \<lparr>entityName = ''Ghost'', contents = [''x'']\<rparr>]
     (Some [entity_record \<lparr>name = ''Alice'', entityType = ''person'', observations = []\<rparr>]))) =
   Inr \<lparr>entities = [\<lparr>name = ''Alice'', entityType = ''person'', observations = []\<rparr>],
        relations = []\<rparr>"
proof -
  have l: "loadGraph (Some [entity_record \<lparr>name = ''Alice'', entityType = ''person'', observations = []\<rparr>]) =
    Inr \<lparr>entities = [\<lparr>name = ''Alice'', entityType = ''person'', observations = []\<rparr>],
        relations = []\<rparr>"
    by (simp add: eval_defs)
  show ?thesis
    using addObservations_missing_entity [OF l,
        of "\<lparr>entityName = ''Ghost'', contents = [''x'']\<rparr>"
           "[\<lparr>entityName = ''Alice'', contents = [''likes tea'']\<rparr>,
             \<lparr>entityName = ''Ghost'', contents = [''x'']\<rparr>]"]
    by (simp add: l readGraph_def)
qed

section \<open>Loading\<close>

lemma reduce_lines_Inr:
  "reduce_lines ls (es, rs) = Inr (es', rs') \<Longrightarrow>
   es' = es @ tagged_items ''entity'' ls \<and> rs' = rs @ tagged_items ''relation'' ls"
proof (induction ls arbitrary: es rs)
  case Nil
  then show ?case by simp
next
  case (Cons l ls)
  show ?case
  proof (cases l)
    case (Record item)
    with Cons.prems obtain t where t: "item_type item = Inr t"
      by (cases "item_type item") auto
    let ?es = "if t = Some (JString ''entity'') then es @ [item] else es"
    let ?rs = "if t = Some (JString ''relation'') then rs @ [item] else rs"
    from Cons.prems Record t have "reduce_lines ls (?es, ?rs) = Inr (es', rs')"
      by simp
    then have "es' = ?es @ tagged_items ''entity'' ls \<and> rs' = ?rs @ tagged_items ''relation'' ls"
      by (rule Cons.IH)
    with Record t show ?thesis by simp
  qed (use Cons.prems in auto)
qed

lemma reduce_lines_parsed:
  "\<forall>l\<in>set ls. l \<noteq> Blank \<and> l \<noteq> Malformed \<and> l \<noteq> Record JNull \<Longrightarrow>
   reduce_lines ls (es, rs) =
     Inr (es @ tagged_items ''entity'' ls, rs @ tagged_items ''relation'' ls)"
proof (induction ls arbitrary: es rs)
  case Nil
  then show ?case by simp
next
  case (Cons l ls)
  then obtain item where l: "l = Record item" and "item \<noteq> JNull"
    by (cases l) auto
  then obtain t where t: "item_type item = Inr t"
    by (cases item) auto
  from Cons.prems have "\<forall>l\<in>set ls. l \<noteq> Blank \<and> l \<noteq> Malformed \<and> l \<noteq> Record JNull"
    by simp
  note IH = Cons.IH [OF this]
  show ?case by (simp add: l t IH)
qed

lemma tagged_items_filter:
  "tagged_items t (filter (\<lambda>l. l \<noteq> Blank) ls) = tagged_items t ls"
  by (induction t ls rule: tagged_items.induct) auto

lemma tagged_items_member:
  "Record item \<in> set ls \<Longrightarrow> item_type item = Inr (Some (JString t)) \<Longrightarrow>
   item \<in> set (tagged_items t ls)"
  by (induction t ls rule: tagged_items.induct) auto

lemma zparse_graph_entity_invalid:
  "item \<in> set es \<Longrightarrow> zparse EntitySchema item = None \<Longrightarrow>
   zparse KnowledgeGraphSchema (JObject [(''entities'', JArray es), (''relations'', JArray rs)]) = None"
  by (simp add: KnowledgeGraphSchema_def property_def all_some_None)

lemma zparse_graph_relation_invalid:
  "item \<in> set rs \<Longrightarrow> zparse RelationSchema item = None \<Longrightarrow>
   zparse KnowledgeGraphSchema (JObject [(''entities'', JArray es), (''relations'', JArray rs)]) = None"
  by (simp add: KnowledgeGraphSchema_def property_def all_some_None all_some_Cons
      split: option.splits)

lemma loadGraph_json_cases:
  "loadGraph_json (Some data) =
     (case reduce_lines (filter (\<lambda>l. l \<noteq> Blank) data) ([], []) of
        Inl err \<Rightarrow> Inl err
      | Inr p \<Rightarrow>
          (case zparse KnowledgeGraphSchema
                  (JObject [(''entities'', JArray (tagged_items ''entity'' data)),
                            (''relations'', JArray (tagged_items ''relation'' data))]) of
             None \<Rightarrow> Inl ZodError
           | Some graph \<Rightarrow> Inr graph))"
proof (cases "reduce_lines (filter (\<lambda>l. l \<noteq> Blank) data) ([], [])")
  case (Inl err)
  then show ?thesis by (simp add: loadGraph_json_def)
next
  case (Inr p)
  obtain es rs where p: "p = (es, rs)" by (cases p)
  with Inr have "es = tagged_items ''entity'' data \<and> rs = tagged_items ''relation'' data"
    using reduce_lines_Inr [of "filter (\<lambda>l. l \<noteq> Blank) data" "[]" "[]" es rs]
    by (simp add: tagged_items_filter)
  with Inr p show ?thesis by (simp add: loadGraph_json_def)
qed

lemma loadGraph_invalid_tagged:
  assumes "Record item \<in> set data"
    and "item_type item = Inr (Some (JString ''entity'')) \<and> zparse EntitySchema item = None \<or>
         item_type item = Inr (Some (JString ''relation'')) \<and> zparse RelationSchema item = None"
  shows "zparse KnowledgeGraphSchema
           (JObject [(''entities'', JArray (tagged_items ''entity'' data)),
                     (''relations'', JArray (tagged_items ''relation'' data))]) = None"
  using assms
  by (auto intro: zparse_graph_entity_invalid zparse_graph_relation_invalid tagged_items_member)

lemma loadGraph_cases:
  "loadGraph (Some data) =
     (case reduce_lines (filter (\<lambda>l. l \<noteq> Blank) data) ([], []) of
        Inl err \<Rightarrow> Inl err
      | Inr p \<Rightarrow>
          (case zparse KnowledgeGraphSchema
                  (JObject [(''entities'', JArray (tagged_items ''entity'' data)),
                            (''relations'', JArray (tagged_items ''relation'' data))]) of
             None \<Rightarrow> Inl ZodError
           | Some graph \<Rightarrow> Inr (as_graph graph)))"
  by (simp add: loadGraph_def loadGraph_json_cases split: sum.splits option.splits)

lemma reduce_lines_append_cong:
  "(\<And>graph. reduce_lines xs graph = reduce_lines ys graph) \<Longrightarrow>
   reduce_lines (pre @ xs) graph = reduce_lines (pre @ ys) graph"
proof (induction pre arbitrary: graph)
  case Nil
  then show ?case by simp
next
  case (Cons l pre)
  obtain es rs where graph: "graph = (es, rs)" by (cases graph)
  show ?case
  proof (cases l)
    case (Record item)
    then show ?thesis
      by (cases "item_type item") (simp_all add: graph Cons.IH [OF Cons.prems])
  qed (simp_all add: graph)
qed

lemma reduce_lines_skip:
  assumes "item_type item = Inr t"
    and "t \<noteq> Some (JString ''entity'')" and "t \<noteq> Some (JString ''relation'')"
  shows "reduce_lines (pre @ Record item # post) graph = reduce_lines (pre @ post) graph"
proof (rule reduce_lines_append_cong)
  fix graph' :: "json list \<times> json list"
  obtain es rs where "graph' = (es, rs)" by (cases graph')
  with assms show "reduce_lines (Record item # post) graph' = reduce_lines post graph'"
    by simp
qed

lemma tagged_items_append:
  "tagged_items t (xs @ ys) = tagged_items t xs @ tagged_items t ys"
  by (induction t xs rule: tagged_items.induct) auto

lemma loadGraph_skip:
  assumes "item_type item = Inr t"
    and "t \<noteq> Some (JString ''entity'')" and "t \<noteq> Some (JString ''relation'')"
  shows "loadGraph (Some (pre @ Record item # post)) = loadGraph (Some (pre @ post))"
proof -
  have r: "reduce_lines (filter (\<lambda>l. l \<noteq> Blank) (pre @ Record item # post)) ([], []) =
           reduce_lines (filter (\<lambda>l. l \<noteq> Blank) (pre @ post)) ([], [])"
    using reduce_lines_skip [OF assms] by simp
  have e: "tagged_items ''entity'' (pre @ Record item # post) = tagged_items ''entity'' (pre @ post)"
    using assms by (auto simp: tagged_items_append)
  have l: "tagged_items ''relation'' (pre @ Record item # post) = tagged_items ''relation'' (pre @ post)"
    using assms by (auto simp: tagged_items_append)
  show ?thesis unfolding loadGraph_cases r e l ..
qed

lemma reduce_lines_unparsed:
  "Malformed \<in> set ls \<or> Record JNull \<in> set ls \<Longrightarrow>
   reduce_lines ls graph = Inl SyntaxError \<or> reduce_lines ls graph = Inl TypeError"
proof (induction ls arbitrary: graph)
  case Nil
  then show ?case by simp
next
  case (Cons l ls)
  obtain es rs where graph: "graph = (es, rs)" by (cases graph)
  show ?case
  proof (cases l)
    case (Record item)
    show ?thesis
    proof (cases "item_type item")
      case (Inl err)
      then have "err = TypeError" by (cases item) auto
      with Inl Record graph show ?thesis by simp
    next
      case (Inr t)
      then have "item \<noteq> JNull" by auto
      with Cons.prems Record have "Malformed \<in> set ls \<or> Record JNull \<in> set ls" by auto
      from Cons.IH [OF this] Record Inr graph show ?thesis by simp
    qed
  qed (simp_all add: graph)
qed

lemma loadGraph_unparsed:
  assumes "Malformed \<in> set data \<or> Record JNull \<in> set data"
  shows "loadGraph (Some data) = Inl SyntaxError \<or> loadGraph (Some data) = Inl TypeError"
proof -
  from assms have "Malformed \<in> set (filter (\<lambda>l. l \<noteq> Blank) data) \<or>
                   Record JNull \<in> set (filter (\<lambda>l. l \<noteq> Blank) data)"
    by auto
  from reduce_lines_unparsed [OF this, of "([], [])"] show ?thesis
    by (auto simp: loadGraph_cases)
qed

text \<open>
  C3, as the code has it. A stored record tagged \<open>entity\<close> or \<open>relation\<close> that fails
  its schema fails the whole load, with the validation error when every line of the file
  parses and none is \<^verbatim>\<open>null\<close>; a line that does not parse, or is \<^verbatim>\<open>null\<close>, fails
  the whole load with the parser's error or a type error; a record that carries neither
  tag is not validated: the load skips it and returns what the file without that line
  gives.
\<close>

theorem loadGraph_validates_tagged_records:
  "(Record item \<in> set data \<and>
    (item_type item = Inr (Some (JString ''entity'')) \<and> zparse EntitySchema item = None \<or>
     item_type item = Inr (Some (JString ''relation'')) \<and> zparse RelationSchema item = None) \<longrightarrow>
      (\<exists>err. loadGraph (Some data) = Inl err) \<and>
      ((\<forall>l\<in>set data. l \<noteq> Malformed \<and> l \<noteq> Record JNull) \<longrightarrow>
         loadGraph (Some data) = Inl ZodError)) \<and>
   (Malformed \<in> set data \<or> Record JNull \<in> set data \<longrightarrow>
      loadGraph (Some data) = Inl SyntaxError \<or> loadGraph (Some data) = Inl TypeError) \<and>
   (item_type other = Inr t \<and> t \<noteq> Some (JString ''entity'') \<and> t \<noteq> Some (JString ''relation'') \<longrightarrow>
      loadGraph (Some (pre @ Record other # post)) = loadGraph (Some (pre @ post)))"
proof (intro conjI impI)
  assume a: "Record item \<in> set data \<and>
    (item_type item = Inr (Some (JString ''entity'')) \<and> zparse EntitySchema item = None \<or>
     item_type item = Inr (Some (JString ''relation'')) \<and> zparse RelationSchema item = None)"
  then have invalid: "zparse KnowledgeGraphSchema
           (JObject [(''entities'', JArray (tagged_items ''entity'' data)),
                     (''relations'', JArray (tagged_items ''relation'' data))]) = None"
    using loadGraph_invalid_tagged by blast
  then show "\<exists>err. loadGraph (Some data) = Inl err"
    by (simp add: loadGraph_cases split: sum.splits)
  assume "\<forall>l\<in>set data. l \<noteq> Malformed \<and> l \<noteq> Record JNull"
  then have "\<forall>l\<in>set (filter (\<lambda>l. l \<noteq> Blank) data). l \<noteq> Blank \<and> l \<noteq> Malformed \<and> l \<noteq> Record JNull"
    by simp
  then have "\<exists>p. reduce_lines (filter (\<lambda>l. l \<noteq> Blank) data) ([], []) = Inr p"
    using reduce_lines_parsed by blast
  with invalid show "loadGraph (Some data) = Inl ZodError"
    by (auto simp: loadGraph_cases)
next
  assume "Malformed \<in> set data \<or> Record JNull \<in> set data"
  then show "loadGraph (Some data) = Inl SyntaxError \<or> loadGraph (Some data) = Inl TypeError"
    by (rule loadGraph_unparsed)
next
  assume "item_type other = Inr t \<and> t \<noteq> Some (JString ''entity'') \<and> t \<noteq> Some (JString ''relation'')"
  then show "loadGraph (Some (pre @ Record other # post)) = loadGraph (Some (pre @ post))"
    using loadGraph_skip by blast
qed

theorem loadGraph_validates_tagged_records_witness:
  "loadGraph (Some [entity_record \<lparr>name = ''Alice'', entityType = ''person'', observations = []\<rparr>,
                    Record (JObject [(''type'', JString ''entity''), (''name'', JString ''Bob'')])]) =
     Inl ZodError \<and>
   loadGraph (Some ([entity_record \<lparr>name = ''Alice'', entityType = ''person'', observations = []\<rparr>] @
                    Record (JObject [(''type'', JString ''note''), (''name'', JString ''Bob'')]) # [])) =
     Inr \<lparr>entities = [\<lparr>name = ''Alice'', entityType = ''person'', observations = []\<rparr>],
          relations = []\<rparr> \<and>
   loadGraph (Some [entity_record \<lparr>name = ''Alice'', entityType = ''person'', observations = []\<rparr>,
                    Malformed]) =
     Inl SyntaxError \<and>
   loadGraph (Some [Record JNull,
                    entity_record \<lparr>name = ''Alice'', entityType = ''person'', observations = []\<rparr>]) =
     Inl TypeError"
  using loadGraph_validates_tagged_records
    [of _ "[entity_record \<lparr>name = ''Alice'', entityType = ''person'', observations = []\<rparr>,
            Malformed]"]
    loadGraph_validates_tagged_records
    [of _ "[Record JNull,
            entity_record \<lparr>name = ''Alice'', entityType = ''person'', observations = []\<rparr>]"]
    loadGraph_validates_tagged_records
    [of "JObject [(''type'', JString ''entity''), (''name'', JString ''Bob'')]"
        "[entity_record \<lparr>name = ''Alice'', entityType = ''person'', observations = []\<rparr>,
          Record (JObject [(''type'', JString ''entity''), (''name'', JString ''Bob'')])]"
        "JObject [(''type'', JString ''note''), (''name'', JString ''Bob'')]"
        "Some (JString ''note'')"
        "[entity_record \<lparr>name = ''Alice'', entityType = ''person'', observations = []\<rparr>]"
        "[]"]
  by (simp add: eval_defs)

text \<open>
  C3 as stated fails: a stored record without a tag, which is neither a valid entity nor
  a valid relation, does not fail the load. The load returns the graph of the other line.
\<close>

theorem loadGraph_untagged_record_counterexample:
  "zparse EntitySchema (JObject [(''name'', JString ''Bob''), (''entityType'', JNumber 7)]) = None \<and>
   zparse RelationSchema (JObject [(''name'', JString ''Bob''), (''entityType'', JNumber 7)]) = None \<and>
   loadGraph (Some [entity_record \<lparr>name = ''Alice'', entityType = ''person'', observations = []\<rparr>,
                    Record (JObject [(''name'', JString ''Bob''), (''entityType'', JNumber 7)])]) =
     Inr \<lparr>entities = [\<lparr>name = ''Alice'', entityType = ''person'', observations = []\<rparr>],
          relations = []\<rparr>"
  by (simp add: eval_defs)

section \<open>What each mutation stores\<close>

lemma saved_objects:
  assumes "\<forall>e\<in>set es. zparse EntitySchema e \<noteq> None \<and> tag_kept ''entity'' e"
    and "\<forall>r\<in>set rs. zparse RelationSchema r \<noteq> None \<and> tag_kept ''relation'' r"
  shows "loadGraph (snd (saveGraph (graph_object es rs) st)) =
           Inr \<lparr>entities = map as_entity es, relations = map as_relation rs\<rparr>"
proof -
  have "zparse KnowledgeGraphSchema (graph_object es rs) \<noteq> None"
    unfolding zparse_graph_object using assms by blast
  from saveGraph_valid [OF this] loadGraph_objects [OF assms] show ?thesis
    by (simp add: graph_object_fields)
qed

lemma save_return_valid:
  "zparse KnowledgeGraphSchema graph \<noteq> None \<Longrightarrow>
   save_return graph st result = (Inr result, snd (saveGraph graph st))"
  by (simp add: save_return_def saveGraph_valid)

lemma save_return_eq:
  "save_return (graph_json graph) st result = (Inr result, snd (saveGraph (graph_json graph) st))"
  by (simp add: save_return_def saveGraph_eq)

lemma name_exists: "list_ex (\<lambda>x. name x = n) es \<longleftrightarrow> n \<in> name ` set es"
  by (auto simp: list_ex_iff)

lemma same_triple_eq: "same_triple a b \<longleftrightarrow> a = b"
  by (auto simp: same_triple_def)

lemma triple_exists: "list_ex (\<lambda>x. same_triple x r) rs \<longleftrightarrow> r \<in> set rs"
  by (auto simp: list_ex_iff same_triple_eq)

lemma triple_listed: "list_ex (\<lambda>d. same_triple r (f d)) ds \<longleftrightarrow> r \<in> f ` set ds"
  by (auto simp: list_ex_iff same_triple_eq)

lemma createEntities_invalid:
  "\<exists>e\<in>set es. zparse EntitySchema e = None \<Longrightarrow> createEntities es st = (Inl ZodError, st)"
  by (simp add: createEntities_def list_ex_iff)

lemma createRelations_invalid:
  "\<exists>r\<in>set rs. zparse RelationSchema r = None \<Longrightarrow> createRelations rs st = (Inl ZodError, st)"
  by (simp add: createRelations_def list_ex_iff)

lemma deleteRelations_invalid:
  "\<exists>r\<in>set rs. zparse RelationSchema r = None \<Longrightarrow> deleteRelations rs st = (Inl ZodError, st)"
  by (simp add: deleteRelations_def list_ex_iff)

lemma createEntities_eq:
  assumes "loadGraph st = Inr g" and "\<forall>e\<in>set es. zparse EntitySchema e \<noteq> None"
  shows "createEntities es st =
           (Inr (filter (\<lambda>e. name (as_entity e) \<notin> name ` set (entities g)) es),
            snd (saveGraph
                   (graph_object
                      (map entity_json (entities g) @
                       filter (\<lambda>e. name (as_entity e) \<notin> name ` set (entities g)) es)
                      (map relation_json (relations g))) st))"
proof -
  let ?new = "filter (\<lambda>e. name (as_entity e) \<notin> name ` set (entities g)) es"
  from assms(2) have valid: "\<not> list_ex (\<lambda>e. zparse EntitySchema e = None) es"
    by (simp add: list_ex_iff)
  have "zparse KnowledgeGraphSchema
      (graph_object (map entity_json (entities g) @ ?new) (map relation_json (relations g))) \<noteq> None"
    unfolding zparse_graph_object using assms(2)
    by (auto simp: zparse_entity_json zparse_relation_json)
  from save_return_valid [OF this] assms(1) valid show ?thesis
    by (simp add: createEntities_def load_then_def name_exists Let_def)
qed

lemma createEntities_stored:
  assumes "loadGraph st = Inr g"
    and "\<forall>e\<in>set es. zparse EntitySchema e \<noteq> None \<and> tag_kept ''entity'' e"
  shows "loadGraph (snd (createEntities es st)) =
           Inr (g\<lparr>entities := entities g @
                  map as_entity (filter (\<lambda>e. name (as_entity e) \<notin> name ` set (entities g)) es)\<rparr>)"
proof -
  let ?new = "filter (\<lambda>e. name (as_entity e) \<notin> name ` set (entities g)) es"
  from assms(2) have valid: "\<forall>e\<in>set es. zparse EntitySchema e \<noteq> None" by simp
  have "loadGraph (snd (saveGraph
          (graph_object (map entity_json (entities g) @ ?new) (map relation_json (relations g))) st)) =
        Inr \<lparr>entities = map as_entity (map entity_json (entities g) @ ?new),
             relations = map as_relation (map relation_json (relations g))\<rparr>"
    using assms(2)
    by (intro saved_objects)
      (auto simp: zparse_entity_json zparse_relation_json tag_kept_entity_json
        tag_kept_relation_json)
  then show ?thesis
    by (simp add: createEntities_eq [OF assms(1) valid] comp_def as_entity_json as_relation_json)
qed

lemma createRelations_eq:
  assumes "loadGraph st = Inr g" and "\<forall>r\<in>set rs. zparse RelationSchema r \<noteq> None"
  shows "createRelations rs st =
           (Inr (filter (\<lambda>r. as_relation r \<notin> set (relations g)) rs),
            snd (saveGraph
                   (graph_object (map entity_json (entities g))
                      (map relation_json (relations g) @
                       filter (\<lambda>r. as_relation r \<notin> set (relations g)) rs)) st))"
proof -
  let ?new = "filter (\<lambda>r. as_relation r \<notin> set (relations g)) rs"
  from assms(2) have valid: "\<not> list_ex (\<lambda>r. zparse RelationSchema r = None) rs"
    by (simp add: list_ex_iff)
  have "zparse KnowledgeGraphSchema
      (graph_object (map entity_json (entities g)) (map relation_json (relations g) @ ?new)) \<noteq> None"
    unfolding zparse_graph_object using assms(2)
    by (auto simp: zparse_entity_json zparse_relation_json)
  from save_return_valid [OF this] assms(1) valid show ?thesis
    by (simp add: createRelations_def load_then_def triple_exists Let_def)
qed

lemma createRelations_stored:
  assumes "loadGraph st = Inr g"
    and "\<forall>r\<in>set rs. zparse RelationSchema r \<noteq> None \<and> tag_kept ''relation'' r"
  shows "loadGraph (snd (createRelations rs st)) =
           Inr (g\<lparr>relations := relations g @
                  map as_relation (filter (\<lambda>r. as_relation r \<notin> set (relations g)) rs)\<rparr>)"
proof -
  let ?new = "filter (\<lambda>r. as_relation r \<notin> set (relations g)) rs"
  from assms(2) have valid: "\<forall>r\<in>set rs. zparse RelationSchema r \<noteq> None" by simp
  have "loadGraph (snd (saveGraph
          (graph_object (map entity_json (entities g)) (map relation_json (relations g) @ ?new)) st)) =
        Inr \<lparr>entities = map as_entity (map entity_json (entities g)),
             relations = map as_relation (map relation_json (relations g) @ ?new)\<rparr>"
    using assms(2)
    by (intro saved_objects)
      (auto simp: zparse_entity_json zparse_relation_json tag_kept_entity_json
        tag_kept_relation_json)
  then show ?thesis
    by (simp add: createRelations_eq [OF assms(1) valid] comp_def as_entity_json as_relation_json)
qed

lemma deleteEntities_eq:
  assumes "loadGraph st = Inr g"
  shows "deleteEntities ns st =
           (Inr (),
            snd (saveGraph (graph_json
                   (g\<lparr>entities := filter (\<lambda>e. name e \<notin> set ns) (entities g),
                      relations := filter (\<lambda>r. rel_from r \<notin> set ns \<and> rel_to r \<notin> set ns)
                                     (relations g)\<rparr>)) st))"
  using assms by (simp add: deleteEntities_def load_then_def save_return_eq)

lemma deleteRelations_eq:
  assumes "loadGraph st = Inr g" and "\<forall>r\<in>set rs. zparse RelationSchema r \<noteq> None"
  shows "deleteRelations rs st =
           (Inr (),
            snd (saveGraph (graph_json
                   (g\<lparr>relations := filter (\<lambda>r. r \<notin> as_relation ` set rs) (relations g)\<rparr>)) st))"
proof -
  from assms(2) have "\<not> list_ex (\<lambda>r. zparse RelationSchema r = None) rs"
    by (simp add: list_ex_iff)
  with assms(1) show ?thesis
    by (simp add: deleteRelations_def load_then_def save_return_eq triple_listed)
qed

lemma deleteObservations_eq:
  assumes "loadGraph st = Inr g"
  shows "deleteObservations ds st =
           (Inr (),
            snd (saveGraph (graph_json
                   (g\<lparr>entities := foldl (\<lambda>es d. delete_observation d es) (entities g) ds\<rparr>)) st))"
  using assms by (simp add: deleteObservations_def load_then_def save_return_eq)

lemma addObservations_eq:
  assumes "loadGraph st = Inr g"
  shows "addObservations us st =
           (case add_all us (entities g) of
              Inl err \<Rightarrow> (Inl err, st)
            | Inr (results, es) \<Rightarrow>
                (Inr results, snd (saveGraph (graph_json (g\<lparr>entities := es\<rparr>)) st)))"
  using assms
  by (simp add: addObservations_def load_then_def save_return_eq split: sum.splits)

lemma add_all_names: "add_all us es = Inr (rs, es') \<Longrightarrow> map name es' = map name es"
proof (induction us arbitrary: es rs es')
  case Nil
  then show ?case by simp
next
  case (Cons u us)
  from Cons.prems obtain r es1 rs1 where
    step: "add_observation u es = Inr (r, es1)" and rest: "add_all us es1 = Inr (rs1, es')"
    by (auto split: sum.splits)
  from Cons.IH [OF rest] add_observation_names [OF step] show ?case by simp
qed

lemma delete_observation_names: "map name (delete_observation d es) = map name es"
  by (simp add: delete_observation_def mutate_first_names)

lemma delete_all_names:
  "map name (foldl (\<lambda>es d. delete_observation d es) es ds) = map name es"
  by (induction ds arbitrary: es) (simp_all add: delete_observation_names)

section \<open>Invariants\<close>

lemma inj_triple: "inj triple"
  by (rule injI) (simp add: triple_def)

lemma distinct_triples: "distinct (map triple rs) \<longleftrightarrow> distinct rs"
  by (simp add: distinct_map inj_triple [THEN inj_on_subset])

lemma invariant_saved:
  "(\<exists>g'. loadGraph (snd (saveGraph (graph_json h) st)) = Inr g' \<and> graph_invariant g') \<longleftrightarrow>
   graph_invariant h"
  by (simp add: loadGraph_saved)

lemma invariant_new_entities:
  assumes "graph_invariant g"
  shows "graph_invariant
           (g\<lparr>entities := entities g @
                map as_entity (filter (\<lambda>e. name (as_entity e) \<notin> name ` set (entities g)) es)\<rparr>) \<longleftrightarrow>
         distinct (map (\<lambda>e. name (as_entity e))
                     (filter (\<lambda>e. name (as_entity e) \<notin> name ` set (entities g)) es))"
  using assms
  by (auto simp: graph_invariant_def unique_names_def unique_triples_def comp_def)
    (metis imageI)

lemma invariant_new_relations:
  assumes "graph_invariant g"
  shows "graph_invariant
           (g\<lparr>relations := relations g @
                map as_relation (filter (\<lambda>r. as_relation r \<notin> set (relations g)) rs)\<rparr>) \<longleftrightarrow>
         distinct (map (\<lambda>r. triple (as_relation r))
                     (filter (\<lambda>r. as_relation r \<notin> set (relations g)) rs))"
proof -
  have "map (\<lambda>r. triple (as_relation r)) xs = map triple (map as_relation xs)" for xs
    by simp
  then show ?thesis
    using assms
    by (auto simp: graph_invariant_def unique_names_def unique_triples_def distinct_triples
        simp del: map_map dest: injD [OF inj_triple])
qed

lemma invariant_same_names:
  assumes "graph_invariant g" and "map name es = map name (entities g)"
  shows "graph_invariant (g\<lparr>entities := es\<rparr>)"
  using assms by (simp add: graph_invariant_def unique_names_def unique_triples_def)

lemma invariant_filtered:
  assumes "graph_invariant g"
  shows "graph_invariant (g\<lparr>entities := filter p (entities g), relations := filter q (relations g)\<rparr>)"
  using assms
  by (simp add: graph_invariant_def unique_names_def unique_triples_def distinct_map_filter)

lemma invariant_filtered_relations:
  assumes "graph_invariant g"
  shows "graph_invariant (g\<lparr>relations := filter q (relations g)\<rparr>)"
  using assms
  by (simp add: graph_invariant_def unique_names_def unique_triples_def distinct_map_filter)

lemma invariant_addObservations:
  assumes "loadGraph st = Inr g" and "graph_invariant g"
  shows "\<exists>g'. loadGraph (snd (addObservations us st)) = Inr g' \<and> graph_invariant g'"
proof (cases "add_all us (entities g)")
  case (Inl err)
  with assms show ?thesis by (simp add: addObservations_eq)
next
  case (Inr p)
  obtain results es where p: "p = (results, es)" by (cases p)
  with Inr have "map name es = map name (entities g)" by (simp add: add_all_names)
  with assms(2) have "graph_invariant (g\<lparr>entities := es\<rparr>)" by (rule invariant_same_names)
  with assms(1) Inr p show ?thesis by (simp add: addObservations_eq loadGraph_saved)
qed

text \<open>
  C4, as the code has it. From a stored graph with unique names and unique triples,
  \<^verbatim>\<open>addObservations\<close>, \<^verbatim>\<open>deleteEntities\<close>, \<^verbatim>\<open>deleteObservations\<close> and
  \<^verbatim>\<open>deleteRelations\<close> leave a stored graph with unique names and unique triples for
  every input, and so do \<^verbatim>\<open>createEntities\<close> and \<^verbatim>\<open>createRelations\<close> on an input they
  reject. On an input of objects that satisfy the schema and have no own key \<open>type\<close>
  other than their tag, \<^verbatim>\<open>createEntities\<close> does so exactly when the input entities
  whose names are not stored yet have pairwise distinct names, and \<^verbatim>\<open>createRelations\<close>
  exactly when the input relations that are not stored yet have pairwise distinct
  triples.
\<close>

theorem mutations_preserve_invariants:
  assumes "loadGraph st = Inr g" and "graph_invariant g"
  shows
    "((\<forall>e\<in>set es. zparse EntitySchema e \<noteq> None \<and> tag_kept ''entity'' e) \<longrightarrow>
        ((\<exists>g'. loadGraph (snd (createEntities es st)) = Inr g' \<and> graph_invariant g') \<longleftrightarrow>
           distinct (map (\<lambda>e. name (as_entity e))
                       (filter (\<lambda>e. name (as_entity e) \<notin> name ` set (entities g)) es)))) \<and>
     ((\<exists>e\<in>set es. zparse EntitySchema e = None) \<longrightarrow>
        (\<exists>g'. loadGraph (snd (createEntities es st)) = Inr g' \<and> graph_invariant g')) \<and>
     ((\<forall>r\<in>set rs. zparse RelationSchema r \<noteq> None \<and> tag_kept ''relation'' r) \<longrightarrow>
        ((\<exists>g'. loadGraph (snd (createRelations rs st)) = Inr g' \<and> graph_invariant g') \<longleftrightarrow>
           distinct (map (\<lambda>r. triple (as_relation r))
                       (filter (\<lambda>r. as_relation r \<notin> set (relations g)) rs)))) \<and>
     ((\<exists>r\<in>set rs. zparse RelationSchema r = None) \<longrightarrow>
        (\<exists>g'. loadGraph (snd (createRelations rs st)) = Inr g' \<and> graph_invariant g')) \<and>
     (\<exists>g'. loadGraph (snd (addObservations us st)) = Inr g' \<and> graph_invariant g') \<and>
     (\<exists>g'. loadGraph (snd (deleteEntities ns st)) = Inr g' \<and> graph_invariant g') \<and>
     (\<exists>g'. loadGraph (snd (deleteObservations ds st)) = Inr g' \<and> graph_invariant g') \<and>
     (\<exists>g'. loadGraph (snd (deleteRelations drs st)) = Inr g' \<and> graph_invariant g')"
proof (intro conjI impI)
  assume a: "\<forall>e\<in>set es. zparse EntitySchema e \<noteq> None \<and> tag_kept ''entity'' e"
  show "(\<exists>g'. loadGraph (snd (createEntities es st)) = Inr g' \<and> graph_invariant g') \<longleftrightarrow>
        distinct (map (\<lambda>e. name (as_entity e))
                    (filter (\<lambda>e. name (as_entity e) \<notin> name ` set (entities g)) es))"
    by (simp add: createEntities_stored [OF assms(1) a] invariant_new_entities [OF assms(2)])
next
  assume "\<exists>e\<in>set es. zparse EntitySchema e = None"
  then show "\<exists>g'. loadGraph (snd (createEntities es st)) = Inr g' \<and> graph_invariant g'"
    using assms by (simp add: createEntities_invalid)
next
  assume a: "\<forall>r\<in>set rs. zparse RelationSchema r \<noteq> None \<and> tag_kept ''relation'' r"
  show "(\<exists>g'. loadGraph (snd (createRelations rs st)) = Inr g' \<and> graph_invariant g') \<longleftrightarrow>
        distinct (map (\<lambda>r. triple (as_relation r))
                    (filter (\<lambda>r. as_relation r \<notin> set (relations g)) rs))"
    by (simp add: createRelations_stored [OF assms(1) a] invariant_new_relations [OF assms(2)])
next
  assume "\<exists>r\<in>set rs. zparse RelationSchema r = None"
  then show "\<exists>g'. loadGraph (snd (createRelations rs st)) = Inr g' \<and> graph_invariant g'"
    using assms by (simp add: createRelations_invalid)
next
  show "\<exists>g'. loadGraph (snd (addObservations us st)) = Inr g' \<and> graph_invariant g'"
    using assms by (rule invariant_addObservations)
  show "\<exists>g'. loadGraph (snd (deleteEntities ns st)) = Inr g' \<and> graph_invariant g'"
    by (simp add: deleteEntities_eq [OF assms(1)] loadGraph_saved
        invariant_filtered [OF assms(2)])
  show "\<exists>g'. loadGraph (snd (deleteObservations ds st)) = Inr g' \<and> graph_invariant g'"
    by (simp add: deleteObservations_eq [OF assms(1)] loadGraph_saved
        invariant_same_names [OF assms(2)] delete_all_names)
  show "\<exists>g'. loadGraph (snd (deleteRelations drs st)) = Inr g' \<and> graph_invariant g'"
  proof (cases "\<forall>r\<in>set drs. zparse RelationSchema r \<noteq> None")
    case True
    show ?thesis
      by (simp add: deleteRelations_eq [OF assms(1) True] loadGraph_saved
          invariant_filtered_relations [OF assms(2)])
  next
    case False
    then have "\<exists>r\<in>set drs. zparse RelationSchema r = None" by simp
    with assms show ?thesis by (simp add: deleteRelations_invalid)
  qed
qed

theorem mutations_preserve_invariants_witness:
  "graph_invariant
     \<lparr>entities = [\<lparr>name = ''Alice'', entityType = ''person'', observations = [''likes tea'']\<rparr>],
      relations = [\<lparr>rel_from = ''Alice'', rel_to = ''Bob'', relationType = ''knows''\<rparr>]\<rparr> \<and>
   (\<exists>g'. loadGraph (snd (createEntities [JObject [(''name'', JString ''Bob''), (''entityType'', JString ''person''),
                 (''observations'', JArray []), (''id'', JNumber 7)]]
      (Some [entity_record \<lparr>name = ''Alice'', entityType = ''person'', observations = [''likes tea'']\<rparr>,
            relation_record \<lparr>rel_from = ''Alice'', rel_to = ''Bob'', relationType = ''knows''\<rparr>]))) = Inr g' \<and> graph_invariant g') \<and>
   (\<exists>g'. loadGraph (snd (createEntities [JObject [(''name'', JString ''Bob'')]]
      (Some [entity_record \<lparr>name = ''Alice'', entityType = ''person'', observations = [''likes tea'']\<rparr>,
            relation_record \<lparr>rel_from = ''Alice'', rel_to = ''Bob'', relationType = ''knows''\<rparr>]))) = Inr g' \<and> graph_invariant g') \<and>
   (\<exists>g'. loadGraph (snd (createRelations [relation_json \<lparr>rel_from = ''Bob'', rel_to = ''Alice'', relationType = ''knows''\<rparr>]
      (Some [entity_record \<lparr>name = ''Alice'', entityType = ''person'', observations = [''likes tea'']\<rparr>,
            relation_record \<lparr>rel_from = ''Alice'', rel_to = ''Bob'', relationType = ''knows''\<rparr>]))) = Inr g' \<and> graph_invariant g') \<and>
   (\<exists>g'. loadGraph (snd (createRelations [JNull]
      (Some [entity_record \<lparr>name = ''Alice'', entityType = ''person'', observations = [''likes tea'']\<rparr>,
            relation_record \<lparr>rel_from = ''Alice'', rel_to = ''Bob'', relationType = ''knows''\<rparr>]))) = Inr g' \<and> graph_invariant g') \<and>
   (\<exists>g'. loadGraph (snd (addObservations [\<lparr>entityName = ''Alice'', contents = [''likes tea'', ''plays chess'']\<rparr>]
      (Some [entity_record \<lparr>name = ''Alice'', entityType = ''person'', observations = [''likes tea'']\<rparr>,
            relation_record \<lparr>rel_from = ''Alice'', rel_to = ''Bob'', relationType = ''knows''\<rparr>]))) = Inr g' \<and> graph_invariant g') \<and>
   (\<exists>g'. loadGraph (snd (deleteEntities [''Alice'', ''Alice'']
      (Some [entity_record \<lparr>name = ''Alice'', entityType = ''person'', observations = [''likes tea'']\<rparr>,
            relation_record \<lparr>rel_from = ''Alice'', rel_to = ''Bob'', relationType = ''knows''\<rparr>]))) = Inr g' \<and> graph_invariant g') \<and>
   (\<exists>g'. loadGraph (snd (deleteObservations [\<lparr>deletion_entityName = ''Alice'', deletion_observations = [''likes tea'']\<rparr>]
      (Some [entity_record \<lparr>name = ''Alice'', entityType = ''person'', observations = [''likes tea'']\<rparr>,
            relation_record \<lparr>rel_from = ''Alice'', rel_to = ''Bob'', relationType = ''knows''\<rparr>]))) = Inr g' \<and> graph_invariant g') \<and>
   (\<exists>g'. loadGraph (snd (deleteRelations [relation_json \<lparr>rel_from = ''Alice'', rel_to = ''Bob'', relationType = ''knows''\<rparr>, relation_json \<lparr>rel_from = ''Alice'', rel_to = ''Bob'', relationType = ''knows''\<rparr>]
      (Some [entity_record \<lparr>name = ''Alice'', entityType = ''person'', observations = [''likes tea'']\<rparr>,
            relation_record \<lparr>rel_from = ''Alice'', rel_to = ''Bob'', relationType = ''knows''\<rparr>]))) = Inr g' \<and> graph_invariant g')"
proof -
  have l: "loadGraph (Some [entity_record \<lparr>name = ''Alice'', entityType = ''person'', observations = [''likes tea'']\<rparr>,
            relation_record \<lparr>rel_from = ''Alice'', rel_to = ''Bob'', relationType = ''knows''\<rparr>]) =
    Inr \<lparr>entities = [\<lparr>name = ''Alice'', entityType = ''person'', observations = [''likes tea'']\<rparr>],
      relations = [\<lparr>rel_from = ''Alice'', rel_to = ''Bob'', relationType = ''knows''\<rparr>]\<rparr>"
    by (simp add: eval_defs)
  have i: "graph_invariant \<lparr>entities = [\<lparr>name = ''Alice'', entityType = ''person'', observations = [''likes tea'']\<rparr>],
      relations = [\<lparr>rel_from = ''Alice'', rel_to = ''Bob'', relationType = ''knows''\<rparr>]\<rparr>"
    by (simp add: graph_invariant_def unique_names_def unique_triples_def)
  have v: "zparse EntitySchema (JObject [(''name'', JString ''Bob''), (''entityType'', JString ''person''),
                 (''observations'', JArray []), (''id'', JNumber 7)]) \<noteq> None"
    "tag_kept ''entity'' (JObject [(''name'', JString ''Bob''), (''entityType'', JString ''person''),
                 (''observations'', JArray []), (''id'', JNumber 7)])"
    "zparse EntitySchema (JObject [(''name'', JString ''Bob'')]) = None"
    "zparse RelationSchema (relation_json \<lparr>rel_from = ''Bob'', rel_to = ''Alice'', relationType = ''knows''\<rparr>) \<noteq> None"
    "tag_kept ''relation'' (relation_json \<lparr>rel_from = ''Bob'', rel_to = ''Alice'', relationType = ''knows''\<rparr>)"
    "zparse RelationSchema JNull = None"
    by (simp_all add: EntitySchema_def RelationSchema_def relation_json_def property_def
        tag_kept_def)
  have n: "name (as_entity (JObject [(''name'', JString ''Bob''), (''entityType'', JString ''person''),
                 (''observations'', JArray []), (''id'', JNumber 7)])) = ''Bob''"
    "as_relation (relation_json \<lparr>rel_from = ''Bob'', rel_to = ''Alice'', relationType = ''knows''\<rparr>) = \<lparr>rel_from = ''Bob'', rel_to = ''Alice'', relationType = ''knows''\<rparr>"
    by (simp_all add: as_entity_def property_def as_relation_json)
  show ?thesis
    using mutations_preserve_invariants [OF l i,
        of "[JObject [(''name'', JString ''Bob''), (''entityType'', JString ''person''),
                 (''observations'', JArray []), (''id'', JNumber 7)]]"
           "[relation_json \<lparr>rel_from = ''Bob'', rel_to = ''Alice'', relationType = ''knows''\<rparr>]"
           "[\<lparr>entityName = ''Alice'', contents = [''likes tea'', ''plays chess'']\<rparr>]"
           "[''Alice'', ''Alice'']"
           "[\<lparr>deletion_entityName = ''Alice'', deletion_observations = [''likes tea'']\<rparr>]"
           "[relation_json \<lparr>rel_from = ''Alice'', rel_to = ''Bob'', relationType = ''knows''\<rparr>, relation_json \<lparr>rel_from = ''Alice'', rel_to = ''Bob'', relationType = ''knows''\<rparr>]"]
      mutations_preserve_invariants [OF l i,
        of "[JObject [(''name'', JString ''Bob'')]]" "[JNull]"]
    by (simp add: i v n)
qed

text \<open>
  C4 as stated fails on an input with a duplicate name and on an input with a duplicate
  triple: from the empty store, which has both invariants, \<^verbatim>\<open>createEntities\<close> with two
  entities named \<open>Alice\<close> stores both, and \<^verbatim>\<open>createRelations\<close> with the same triple
  twice stores it twice.
\<close>

theorem create_duplicates_counterexample:
  "loadGraph None = Inr \<lparr>entities = [], relations = []\<rparr> \<and>
   graph_invariant \<lparr>entities = [], relations = []\<rparr> \<and>
   loadGraph (snd (createEntities
       [entity_json \<lparr>name = ''Alice'', entityType = ''person'', observations = [''likes tea'']\<rparr>,
        entity_json \<lparr>name = ''Alice'', entityType = ''cat'', observations = []\<rparr>] None)) =
     Inr \<lparr>entities =
            [\<lparr>name = ''Alice'', entityType = ''person'', observations = [''likes tea'']\<rparr>,
             \<lparr>name = ''Alice'', entityType = ''cat'', observations = []\<rparr>],
          relations = []\<rparr> \<and>
   \<not> graph_invariant
       \<lparr>entities =
          [\<lparr>name = ''Alice'', entityType = ''person'', observations = [''likes tea'']\<rparr>,
           \<lparr>name = ''Alice'', entityType = ''cat'', observations = []\<rparr>],
        relations = []\<rparr> \<and>
   loadGraph (snd (createRelations
       [relation_json \<lparr>rel_from = ''Alice'', rel_to = ''Bob'', relationType = ''knows''\<rparr>,
        relation_json \<lparr>rel_from = ''Alice'', rel_to = ''Bob'', relationType = ''knows''\<rparr>] None)) =
     Inr \<lparr>entities = [],
          relations =
            [\<lparr>rel_from = ''Alice'', rel_to = ''Bob'', relationType = ''knows''\<rparr>,
             \<lparr>rel_from = ''Alice'', rel_to = ''Bob'', relationType = ''knows''\<rparr>]\<rparr> \<and>
   \<not> graph_invariant
       \<lparr>entities = [],
        relations =
          [\<lparr>rel_from = ''Alice'', rel_to = ''Bob'', relationType = ''knows''\<rparr>,
           \<lparr>rel_from = ''Alice'', rel_to = ''Bob'', relationType = ''knows''\<rparr>]\<rparr>"
proof -
  have l: "loadGraph None = Inr \<lparr>entities = [], relations = []\<rparr>"
    by (simp add: eval_defs)
  have e: "\<forall>e\<in>set [entity_json \<lparr>name = ''Alice'', entityType = ''person'', observations = [''likes tea'']\<rparr>,
        entity_json \<lparr>name = ''Alice'', entityType = ''cat'', observations = []\<rparr>]. zparse EntitySchema e \<noteq> None \<and> tag_kept ''entity'' e"
    by (simp add: zparse_entity_json tag_kept_entity_json)
  have r: "\<forall>r\<in>set [relation_json \<lparr>rel_from = ''Alice'', rel_to = ''Bob'', relationType = ''knows''\<rparr>,
        relation_json \<lparr>rel_from = ''Alice'', rel_to = ''Bob'', relationType = ''knows''\<rparr>]. zparse RelationSchema r \<noteq> None \<and> tag_kept ''relation'' r"
    by (simp add: zparse_relation_json tag_kept_relation_json)
  show ?thesis
    by (simp add: l createEntities_stored [OF l e] createRelations_stored [OF l r]
        as_entity_json as_relation_json
        graph_invariant_def unique_names_def unique_triples_def)
qed

section \<open>Creating entities and relations\<close>

lemma count_name_kept:
  "n \<in> name ` set es \<Longrightarrow> 1 \<le> length (filter (\<lambda>x. name x = n) es)"
  by (induction es) auto

lemma count_name_absent:
  "n \<notin> name ` set es \<Longrightarrow> filter (\<lambda>x. name x = n) es = []"
  by (auto simp: filter_empty_conv)

lemma count_after_create:
  "length (filter (\<lambda>x. name x = name (as_entity e))
             (entities g @ map as_entity (filter (\<lambda>x. name (as_entity x) \<notin> name ` set (entities g)) [e]))) =
   max 1 (length (filter (\<lambda>x. name x = name (as_entity e)) (entities g)))"
proof (cases "name (as_entity e) \<in> name ` set (entities g)")
  case True
  from count_name_kept [OF this] True show ?thesis by simp
next
  case False
  from count_name_absent [OF this] False show ?thesis by simp
qed

text \<open>
  C5, as the code has it. When the stored graph loads: an input with an object that
  fails the schema is rejected with the validation error and the storage stays as it was.
  On an input of objects that satisfy the schema, \<^verbatim>\<open>createEntities\<close> returns exactly the
  input objects whose name is not in the graph; when moreover none of them has an own key
  \<open>type\<close> other than \<open>entity\<close>, it stores the graph with exactly those appended, and the
  entities already there stay as they are. A second call with the same such entity
  returns the empty list and stores the same graph again, which holds exactly one entity
  of that name when the graph held at most one before the first call.
\<close>

theorem createEntities_skips_existing:
  assumes "loadGraph st = Inr g"
  shows
    "((\<exists>e\<in>set es. zparse EntitySchema e = None) \<longrightarrow> createEntities es st = (Inl ZodError, st)) \<and>
     ((\<forall>e\<in>set es. zparse EntitySchema e \<noteq> None) \<longrightarrow>
        fst (createEntities es st) =
          Inr (filter (\<lambda>e. name (as_entity e) \<notin> name ` set (entities g)) es)) \<and>
     ((\<forall>e\<in>set es. zparse EntitySchema e \<noteq> None \<and> tag_kept ''entity'' e) \<longrightarrow>
        loadGraph (snd (createEntities es st)) =
          Inr (g\<lparr>entities := entities g @
                 map as_entity (filter (\<lambda>e. name (as_entity e) \<notin> name ` set (entities g)) es)\<rparr>)) \<and>
     (zparse EntitySchema e \<noteq> None \<and> tag_kept ''entity'' e \<longrightarrow>
        fst (createEntities [e] (snd (createEntities [e] st))) = Inr [] \<and>
        loadGraph (snd (createEntities [e] (snd (createEntities [e] st)))) =
          Inr (g\<lparr>entities := entities g @
                 map as_entity (filter (\<lambda>x. name (as_entity x) \<notin> name ` set (entities g)) [e])\<rparr>) \<and>
        length (filter (\<lambda>x. name x = name (as_entity e))
                  (entities g @
                   map as_entity (filter (\<lambda>x. name (as_entity x) \<notin> name ` set (entities g)) [e]))) =
          max 1 (length (filter (\<lambda>x. name x = name (as_entity e)) (entities g))))"
proof (intro conjI impI)
  assume "\<exists>e\<in>set es. zparse EntitySchema e = None"
  then show "createEntities es st = (Inl ZodError, st)" by (rule createEntities_invalid)
next
  assume "\<forall>e\<in>set es. zparse EntitySchema e \<noteq> None"
  then show "fst (createEntities es st) =
          Inr (filter (\<lambda>e. name (as_entity e) \<notin> name ` set (entities g)) es)"
    by (simp add: createEntities_eq [OF assms])
next
  assume "\<forall>e\<in>set es. zparse EntitySchema e \<noteq> None \<and> tag_kept ''entity'' e"
  then show "loadGraph (snd (createEntities es st)) =
          Inr (g\<lparr>entities := entities g @
                 map as_entity (filter (\<lambda>e. name (as_entity e) \<notin> name ` set (entities g)) es)\<rparr>)"
    by (rule createEntities_stored [OF assms])
next
  let ?new = "filter (\<lambda>x. name (as_entity x) \<notin> name ` set (entities g)) [e]"
  let ?g1 = "g\<lparr>entities := entities g @ map as_entity ?new\<rparr>"
  assume e: "zparse EntitySchema e \<noteq> None \<and> tag_kept ''entity'' e"
  then have ok: "\<forall>x\<in>set [e]. zparse EntitySchema x \<noteq> None \<and> tag_kept ''entity'' x"
    and valid: "\<forall>x\<in>set [e]. zparse EntitySchema x \<noteq> None"
    by simp_all
  have first: "loadGraph (snd (createEntities [e] st)) = Inr ?g1"
    using assms ok by (rule createEntities_stored)
  have present: "name (as_entity e) \<in> name ` set (entities ?g1)" by auto
  then have none: "filter (\<lambda>x. name (as_entity x) \<notin> name ` set (entities ?g1)) [e] = []"
    by simp
  show "fst (createEntities [e] (snd (createEntities [e] st))) = Inr []"
    using createEntities_eq [OF first valid] unfolding none by simp
  show "loadGraph (snd (createEntities [e] (snd (createEntities [e] st)))) = Inr ?g1"
    using createEntities_stored [OF first ok] unfolding none by simp
  show "length (filter (\<lambda>x. name x = name (as_entity e)) (entities g @ map as_entity ?new)) =
          max 1 (length (filter (\<lambda>x. name x = name (as_entity e)) (entities g)))"
    by (rule count_after_create)
qed

theorem createEntities_skips_existing_witness:
  "createEntities [JObject [(''name'', JString ''Bob'')]]
     (Some [entity_record \<lparr>name = ''Alice'', entityType = ''person'', observations = [''likes tea'']\<rparr>]) =
     (Inl ZodError, Some [entity_record \<lparr>name = ''Alice'', entityType = ''person'', observations = [''likes tea'']\<rparr>]) \<and>
   fst (createEntities
          [entity_json \<lparr>name = ''Alice'', entityType = ''cat'', observations = [''purrs'']\<rparr>,
           JObject [(''name'', JString ''Bob''), (''entityType'', JString ''person''),
                    (''observations'', JArray []), (''id'', JNumber 7)]]
          (Some [entity_record \<lparr>name = ''Alice'', entityType = ''person'', observations = [''likes tea'']\<rparr>])) =
     Inr [JObject [(''name'', JString ''Bob''), (''entityType'', JString ''person''),
                   (''observations'', JArray []), (''id'', JNumber 7)]] \<and>
   loadGraph (snd (createEntities
          [entity_json \<lparr>name = ''Alice'', entityType = ''cat'', observations = [''purrs'']\<rparr>,
           JObject [(''name'', JString ''Bob''), (''entityType'', JString ''person''),
                    (''observations'', JArray []), (''id'', JNumber 7)]]
          (Some [entity_record \<lparr>name = ''Alice'', entityType = ''person'', observations = [''likes tea'']\<rparr>]))) =
     Inr \<lparr>entities =
            [\<lparr>name = ''Alice'', entityType = ''person'', observations = [''likes tea'']\<rparr>,
             \<lparr>name = ''Bob'', entityType = ''person'', observations = []\<rparr>],
          relations = []\<rparr> \<and>
   fst (createEntities [entity_json \<lparr>name = ''Carol'', entityType = ''person'', observations = []\<rparr>]
         (snd (createEntities [entity_json \<lparr>name = ''Carol'', entityType = ''person'', observations = []\<rparr>]
           (Some [entity_record \<lparr>name = ''Alice'', entityType = ''person'', observations = [''likes tea'']\<rparr>])))) =
     Inr [] \<and>
   loadGraph (snd (createEntities [entity_json \<lparr>name = ''Carol'', entityType = ''person'', observations = []\<rparr>]
         (snd (createEntities [entity_json \<lparr>name = ''Carol'', entityType = ''person'', observations = []\<rparr>]
           (Some [entity_record \<lparr>name = ''Alice'', entityType = ''person'', observations = [''likes tea'']\<rparr>]))))) =
     Inr \<lparr>entities =
            [\<lparr>name = ''Alice'', entityType = ''person'', observations = [''likes tea'']\<rparr>,
             \<lparr>name = ''Carol'', entityType = ''person'', observations = []\<rparr>],
          relations = []\<rparr> \<and>
   length (filter (\<lambda>x. name x = ''Carol'')
     [\<lparr>name = ''Alice'', entityType = ''person'', observations = [''likes tea'']\<rparr>,
      \<lparr>name = ''Carol'', entityType = ''person'', observations = []\<rparr>]) = 1"
proof -
  have l: "loadGraph (Some [entity_record \<lparr>name = ''Alice'', entityType = ''person'', observations = [''likes tea'']\<rparr>]) =
    Inr \<lparr>entities = [\<lparr>name = ''Alice'', entityType = ''person'', observations = [''likes tea'']\<rparr>],
         relations = []\<rparr>"
    by (simp add: eval_defs)
  have v: "zparse EntitySchema (JObject [(''name'', JString ''Bob'')]) = None"
    "zparse EntitySchema (JObject [(''name'', JString ''Bob''), (''entityType'', JString ''person''),
                    (''observations'', JArray []), (''id'', JNumber 7)]) \<noteq> None"
    "tag_kept ''entity'' (JObject [(''name'', JString ''Bob''), (''entityType'', JString ''person''),
                    (''observations'', JArray []), (''id'', JNumber 7)])"
    "name (as_entity (JObject [(''name'', JString ''Bob''), (''entityType'', JString ''person''),
                    (''observations'', JArray []), (''id'', JNumber 7)])) = ''Bob''"
    "as_entity (JObject [(''name'', JString ''Bob''), (''entityType'', JString ''person''),
                    (''observations'', JArray []), (''id'', JNumber 7)]) =
       \<lparr>name = ''Bob'', entityType = ''person'', observations = []\<rparr>"
    by (simp_all add: EntitySchema_def property_def tag_kept_def as_entity_def)
  let ?bob = "JObject [(''name'', JString ''Bob''), (''entityType'', JString ''person''),
                      (''observations'', JArray []), (''id'', JNumber 7)]"
  let ?es = "[entity_json \<lparr>name = ''Alice'', entityType = ''cat'', observations = [''purrs'']\<rparr>,
              ?bob]"
  note t1 = createEntities_skips_existing [OF l, of "[JObject [(''name'', JString ''Bob'')]]" JNull]
  note t2 = createEntities_skips_existing [OF l, of ?es "entity_json \<lparr>name = ''Carol'', entityType = ''person'', observations = []\<rparr>"]
  have p1: "\<exists>e\<in>set [JObject [(''name'', JString ''Bob'')]]. zparse EntitySchema e = None"
    by (simp add: v)
  have p2: "\<forall>e\<in>set ?es. zparse EntitySchema e \<noteq> None \<and> tag_kept ''entity'' e"
    using v(2,3) by (simp add: zparse_entity_json tag_kept_entity_json)
  then have p2': "\<forall>e\<in>set ?es. zparse EntitySchema e \<noteq> None" by blast
  have p3: "zparse EntitySchema (entity_json \<lparr>name = ''Carol'', entityType = ''person'', observations = []\<rparr>) \<noteq> None \<and>
            tag_kept ''entity'' (entity_json \<lparr>name = ''Carol'', entityType = ''person'', observations = []\<rparr>)"
    by (simp add: zparse_entity_json tag_kept_entity_json)
  from t1 p1 have c1: "createEntities [JObject [(''name'', JString ''Bob'')]]
     (Some [entity_record \<lparr>name = ''Alice'', entityType = ''person'', observations = [''likes tea'']\<rparr>]) =
     (Inl ZodError, Some [entity_record \<lparr>name = ''Alice'', entityType = ''person'', observations = [''likes tea'']\<rparr>])"
    by blast
  from t2 p2' have c2: "fst (createEntities ?es (Some [entity_record \<lparr>name = ''Alice'', entityType = ''person'', observations = [''likes tea'']\<rparr>])) =
      Inr [?bob]"
    by (simp add: v as_entity_json)
  from t2 p2 have c3: "loadGraph (snd (createEntities ?es (Some [entity_record \<lparr>name = ''Alice'', entityType = ''person'', observations = [''likes tea'']\<rparr>]))) =
     Inr \<lparr>entities =
            [\<lparr>name = ''Alice'', entityType = ''person'', observations = [''likes tea'']\<rparr>,
             \<lparr>name = ''Bob'', entityType = ''person'', observations = []\<rparr>],
          relations = []\<rparr>"
    by (simp add: v as_entity_json)
  from t2 p3 have c4: "fst (createEntities [entity_json \<lparr>name = ''Carol'', entityType = ''person'', observations = []\<rparr>]
         (snd (createEntities [entity_json \<lparr>name = ''Carol'', entityType = ''person'', observations = []\<rparr>]
           (Some [entity_record \<lparr>name = ''Alice'', entityType = ''person'', observations = [''likes tea'']\<rparr>])))) = Inr []"
    and c5: "loadGraph (snd (createEntities [entity_json \<lparr>name = ''Carol'', entityType = ''person'', observations = []\<rparr>]
         (snd (createEntities [entity_json \<lparr>name = ''Carol'', entityType = ''person'', observations = []\<rparr>]
           (Some [entity_record \<lparr>name = ''Alice'', entityType = ''person'', observations = [''likes tea'']\<rparr>]))))) =
     Inr \<lparr>entities =
            [\<lparr>name = ''Alice'', entityType = ''person'', observations = [''likes tea'']\<rparr>,
             \<lparr>name = ''Carol'', entityType = ''person'', observations = []\<rparr>],
          relations = []\<rparr>"
    by (simp_all add: as_entity_json)
  from c1 c2 c3 c4 c5 show ?thesis by simp
qed

text \<open>
  C5 as stated fails in two ways. An entity that satisfies the schema and has an own key
  \<open>type\<close> is written under that key's value and is not an entity of the stored graph, so
  the second call with the same entity returns it again, not the empty list. And from a
  stored graph that holds two entities of one name, which \<^verbatim>\<open>createEntities\<close> itself
  stores on an input with a duplicate name, two calls with an entity of that name leave
  two entities of that name, not one.
\<close>

theorem createEntities_twice_counterexample:
  "zparse EntitySchema
     (JObject [(''name'', JString ''Bob''), (''entityType'', JString ''person''),
               (''observations'', JArray []), (''type'', JString ''note'')]) \<noteq> None \<and>
   fst (createEntities
          [JObject [(''name'', JString ''Bob''), (''entityType'', JString ''person''),
                    (''observations'', JArray []), (''type'', JString ''note'')]]
          (snd (createEntities
                  [JObject [(''name'', JString ''Bob''), (''entityType'', JString ''person''),
                            (''observations'', JArray []), (''type'', JString ''note'')]] None))) =
     Inr [JObject [(''name'', JString ''Bob''), (''entityType'', JString ''person''),
                   (''observations'', JArray []), (''type'', JString ''note'')]] \<and>
   loadGraph (snd (createEntities
                  [JObject [(''name'', JString ''Bob''), (''entityType'', JString ''person''),
                            (''observations'', JArray []), (''type'', JString ''note'')]] None)) =
     Inr \<lparr>entities = [], relations = []\<rparr> \<and>
   loadGraph (snd (createEntities [entity_json \<lparr>name = ''Alice'', entityType = ''person'', observations = [''likes tea'']\<rparr>]
                (snd (createEntities [entity_json \<lparr>name = ''Alice'', entityType = ''person'', observations = [''likes tea'']\<rparr>]
                   (Some [entity_record \<lparr>name = ''Alice'', entityType = ''person'', observations = [''likes tea'']\<rparr>,
                          entity_record \<lparr>name = ''Alice'', entityType = ''cat'', observations = []\<rparr>]))))) =
     Inr \<lparr>entities =
            [\<lparr>name = ''Alice'', entityType = ''person'', observations = [''likes tea'']\<rparr>,
             \<lparr>name = ''Alice'', entityType = ''cat'', observations = []\<rparr>],
          relations = []\<rparr> \<and>
   length (filter (\<lambda>x. name x = ''Alice'')
     [\<lparr>name = ''Alice'', entityType = ''person'', observations = [''likes tea'']\<rparr>,
      \<lparr>name = ''Alice'', entityType = ''cat'', observations = []\<rparr>]) = 2"
  by (simp add: eval_defs createEntities_def list_ex_iff)





section \<open>Deleting entities\<close>

text \<open>
  C7. When the stored graph loads, \<^verbatim>\<open>deleteEntities\<close> succeeds for every list of names
  and stores the graph without the entities whose name is in the list and without the
  relations whose \<open>from\<close> or \<open>to\<close> is in the list; the stored graph has no relation with
  a listed name as an endpoint and no entity with a listed name; and names that name
  nothing in the graph change nothing.
\<close>

theorem deleteEntities_cascades:
  assumes "loadGraph st = Inr g"
  shows
    "fst (deleteEntities ns st) = Inr () \<and>
     loadGraph (snd (deleteEntities ns st)) =
       Inr (g\<lparr>entities := filter (\<lambda>e. name e \<notin> set ns) (entities g),
              relations := filter (\<lambda>r. rel_from r \<notin> set ns \<and> rel_to r \<notin> set ns) (relations g)\<rparr>) \<and>
     (\<forall>g'. loadGraph (snd (deleteEntities ns st)) = Inr g' \<longrightarrow>
        (\<forall>e\<in>set (entities g'). name e \<notin> set ns) \<and>
        (\<forall>r\<in>set (relations g'). rel_from r \<notin> set ns \<and> rel_to r \<notin> set ns)) \<and>
     ((\<forall>n\<in>set ns. n \<notin> name ` set (entities g) \<and> n \<notin> rel_from ` set (relations g) \<and>
                   n \<notin> rel_to ` set (relations g)) \<longrightarrow>
        loadGraph (snd (deleteEntities ns st)) = Inr g)"
proof -
  let ?g' = "g\<lparr>entities := filter (\<lambda>e. name e \<notin> set ns) (entities g),
              relations := filter (\<lambda>r. rel_from r \<notin> set ns \<and> rel_to r \<notin> set ns) (relations g)\<rparr>"
  have stored: "loadGraph (snd (deleteEntities ns st)) = Inr ?g'"
    by (simp add: deleteEntities_eq [OF assms] loadGraph_saved)
  have same: "?g' = g"
    if "\<forall>n\<in>set ns. n \<notin> name ` set (entities g) \<and> n \<notin> rel_from ` set (relations g) \<and>
                   n \<notin> rel_to ` set (relations g)"
  proof -
    from that have "filter (\<lambda>e. name e \<notin> set ns) (entities g) = entities g"
      by (auto simp: filter_id_conv)
    moreover from that
    have "filter (\<lambda>r. rel_from r \<notin> set ns \<and> rel_to r \<notin> set ns) (relations g) = relations g"
      by (auto simp: filter_id_conv)
    ultimately show ?thesis by simp
  qed
  show ?thesis
    unfolding stored using same by (auto simp: deleteEntities_eq [OF assms])
qed

theorem deleteEntities_cascades_witness:
  "fst (deleteEntities [''Alice'', ''Zed'']
     (Some [entity_record \<lparr>name = ''Alice'', entityType = ''person'', observations = []\<rparr>,
            entity_record \<lparr>name = ''Bob'', entityType = ''person'', observations = []\<rparr>,
            entity_record \<lparr>name = ''Carol'', entityType = ''person'', observations = []\<rparr>,
            relation_record \<lparr>rel_from = ''Alice'', rel_to = ''Bob'', relationType = ''knows''\<rparr>,
            relation_record \<lparr>rel_from = ''Bob'', rel_to = ''Alice'', relationType = ''knows''\<rparr>,
            relation_record \<lparr>rel_from = ''Bob'', rel_to = ''Carol'', relationType = ''knows''\<rparr>])) =
     Inr () \<and>
   loadGraph (snd (deleteEntities [''Alice'', ''Zed'']
     (Some [entity_record \<lparr>name = ''Alice'', entityType = ''person'', observations = []\<rparr>,
            entity_record \<lparr>name = ''Bob'', entityType = ''person'', observations = []\<rparr>,
            entity_record \<lparr>name = ''Carol'', entityType = ''person'', observations = []\<rparr>,
            relation_record \<lparr>rel_from = ''Alice'', rel_to = ''Bob'', relationType = ''knows''\<rparr>,
            relation_record \<lparr>rel_from = ''Bob'', rel_to = ''Alice'', relationType = ''knows''\<rparr>,
            relation_record \<lparr>rel_from = ''Bob'', rel_to = ''Carol'', relationType = ''knows''\<rparr>]))) =
     Inr \<lparr>entities =
            [\<lparr>name = ''Bob'', entityType = ''person'', observations = []\<rparr>,
             \<lparr>name = ''Carol'', entityType = ''person'', observations = []\<rparr>],
          relations = [\<lparr>rel_from = ''Bob'', rel_to = ''Carol'', relationType = ''knows''\<rparr>]\<rparr> \<and>
   loadGraph (snd (deleteEntities [''Zed'']
     (Some [entity_record \<lparr>name = ''Alice'', entityType = ''person'', observations = []\<rparr>,
            entity_record \<lparr>name = ''Bob'', entityType = ''person'', observations = []\<rparr>,
            entity_record \<lparr>name = ''Carol'', entityType = ''person'', observations = []\<rparr>,
            relation_record \<lparr>rel_from = ''Alice'', rel_to = ''Bob'', relationType = ''knows''\<rparr>,
            relation_record \<lparr>rel_from = ''Bob'', rel_to = ''Alice'', relationType = ''knows''\<rparr>,
            relation_record \<lparr>rel_from = ''Bob'', rel_to = ''Carol'', relationType = ''knows''\<rparr>]))) =
     Inr \<lparr>entities =
            [\<lparr>name = ''Alice'', entityType = ''person'', observations = []\<rparr>,
             \<lparr>name = ''Bob'', entityType = ''person'', observations = []\<rparr>,
             \<lparr>name = ''Carol'', entityType = ''person'', observations = []\<rparr>],
          relations =
            [\<lparr>rel_from = ''Alice'', rel_to = ''Bob'', relationType = ''knows''\<rparr>,
             \<lparr>rel_from = ''Bob'', rel_to = ''Alice'', relationType = ''knows''\<rparr>,
             \<lparr>rel_from = ''Bob'', rel_to = ''Carol'', relationType = ''knows''\<rparr>]\<rparr>"
proof -
  have l: "loadGraph
     (Some [entity_record \<lparr>name = ''Alice'', entityType = ''person'', observations = []\<rparr>,
            entity_record \<lparr>name = ''Bob'', entityType = ''person'', observations = []\<rparr>,
            entity_record \<lparr>name = ''Carol'', entityType = ''person'', observations = []\<rparr>,
            relation_record \<lparr>rel_from = ''Alice'', rel_to = ''Bob'', relationType = ''knows''\<rparr>,
            relation_record \<lparr>rel_from = ''Bob'', rel_to = ''Alice'', relationType = ''knows''\<rparr>,
            relation_record \<lparr>rel_from = ''Bob'', rel_to = ''Carol'', relationType = ''knows''\<rparr>]) =
     Inr \<lparr>entities =
            [\<lparr>name = ''Alice'', entityType = ''person'', observations = []\<rparr>,
             \<lparr>name = ''Bob'', entityType = ''person'', observations = []\<rparr>,
             \<lparr>name = ''Carol'', entityType = ''person'', observations = []\<rparr>],
          relations =
            [\<lparr>rel_from = ''Alice'', rel_to = ''Bob'', relationType = ''knows''\<rparr>,
             \<lparr>rel_from = ''Bob'', rel_to = ''Alice'', relationType = ''knows''\<rparr>,
             \<lparr>rel_from = ''Bob'', rel_to = ''Carol'', relationType = ''knows''\<rparr>]\<rparr>"
    by (simp add: eval_defs)
  show ?thesis
    using deleteEntities_cascades [OF l, of "[''Alice'', ''Zed'']"]
      deleteEntities_cascades [OF l, of "[''Zed'']"]
    by simp
qed

section \<open>Searching and opening\<close>




lemma str_includes_empty: "str_includes s []"
  by (cases s) simp_all

lemma matches_empty: "matches lc [] e"
  by (simp add: matches_def toLowerCase_def str_includes_empty)


lemma between_eq:
  "between es rs = filter (\<lambda>r. rel_from r \<in> name ` set es \<and> rel_to r \<in> name ` set es) rs"
  by (simp add: between_def)

lemma searchNodes_eq:
  assumes "loadGraph st = Inr g"
  shows "searchNodes lc q st =
           Inr \<lparr>entities = filter (matches lc q) (entities g),
                relations = between (filter (matches lc q) (entities g)) (relations g)\<rparr>"
  using assms by (simp add: searchNodes_def Let_def)



lemma openNodes_eq:
  assumes "loadGraph st = Inr g"
  shows "openNodes ns st =
           Inr \<lparr>entities = filter (\<lambda>e. name e \<in> set ns) (entities g),
                relations = between (filter (\<lambda>e. name e \<in> set ns) (entities g)) (relations g)\<rparr>"
  using assms by (simp add: openNodes_def Let_def)

text \<open>
  C9, as the code has it. When the stored graph loads, \<^verbatim>\<open>openNodes\<close> keeps exactly the
  entities whose name is a member of the list, so the empty list gives the empty graph.
  \<^verbatim>\<open>searchNodes\<close> with the empty query returns every entity, and of the relations those
  whose \<open>from\<close> and \<open>to\<close> both name a stored entity: the full graph when every stored
  relation is between stored entities. This holds whatever the case mapping \<open>lc\<close> of
  \<^verbatim>\<open>toLowerCase\<close> is.
\<close>

theorem openNodes_empty_list:
  assumes "loadGraph st = Inr g"
  shows
    "openNodes [] st = Inr \<lparr>entities = [], relations = []\<rparr> \<and>
     (\<exists>rs. openNodes ns st =
        Inr \<lparr>entities = filter (\<lambda>e. name e \<in> set ns) (entities g), relations = rs\<rparr>) \<and>
     searchNodes lc [] st =
       Inr \<lparr>entities = entities g,
            relations = filter (\<lambda>r. rel_from r \<in> name ` set (entities g) \<and>
                                     rel_to r \<in> name ` set (entities g)) (relations g)\<rparr> \<and>
     ((\<forall>r\<in>set (relations g). rel_from r \<in> name ` set (entities g) \<and>
                               rel_to r \<in> name ` set (entities g)) \<longrightarrow>
        searchNodes lc [] st = Inr g)"
proof -
  have all: "filter (matches lc []) (entities g) = entities g"
    by (simp add: matches_empty)
  have full: "\<lparr>entities = entities g, relations = relations g\<rparr> = g" by simp
  have closed: "filter (\<lambda>r. rel_from r \<in> name ` set (entities g) \<and>
                             rel_to r \<in> name ` set (entities g)) (relations g) = relations g"
    if "\<forall>r\<in>set (relations g). rel_from r \<in> name ` set (entities g) \<and>
                               rel_to r \<in> name ` set (entities g)"
    using that by (simp add: filter_id_conv)
  show ?thesis
    unfolding openNodes_eq [OF assms] searchNodes_eq [OF assms] all between_eq
    using closed full by auto
qed

theorem openNodes_empty_list_witness:
  "openNodes []
     (Some [entity_record \<lparr>name = ''Alice'', entityType = ''person'', observations = []\<rparr>,
            entity_record \<lparr>name = ''Bob'', entityType = ''person'', observations = []\<rparr>,
            relation_record \<lparr>rel_from = ''Alice'', rel_to = ''Bob'', relationType = ''knows''\<rparr>]) =
     Inr \<lparr>entities = [], relations = []\<rparr> \<and>
   searchNodes ascii_lower []
     (Some [entity_record \<lparr>name = ''Alice'', entityType = ''person'', observations = []\<rparr>,
            entity_record \<lparr>name = ''Bob'', entityType = ''person'', observations = []\<rparr>,
            relation_record \<lparr>rel_from = ''Alice'', rel_to = ''Bob'', relationType = ''knows''\<rparr>]) =
     Inr \<lparr>entities =
            [\<lparr>name = ''Alice'', entityType = ''person'', observations = []\<rparr>,
             \<lparr>name = ''Bob'', entityType = ''person'', observations = []\<rparr>],
          relations = [\<lparr>rel_from = ''Alice'', rel_to = ''Bob'', relationType = ''knows''\<rparr>]\<rparr>"
proof -
  have l: "loadGraph
     (Some [entity_record \<lparr>name = ''Alice'', entityType = ''person'', observations = []\<rparr>,
            entity_record \<lparr>name = ''Bob'', entityType = ''person'', observations = []\<rparr>,
            relation_record \<lparr>rel_from = ''Alice'', rel_to = ''Bob'', relationType = ''knows''\<rparr>]) =
     Inr \<lparr>entities =
            [\<lparr>name = ''Alice'', entityType = ''person'', observations = []\<rparr>,
             \<lparr>name = ''Bob'', entityType = ''person'', observations = []\<rparr>],
          relations = [\<lparr>rel_from = ''Alice'', rel_to = ''Bob'', relationType = ''knows''\<rparr>]\<rparr>"
    by (simp add: eval_defs)
  show ?thesis
    using openNodes_empty_list [OF l, of "[]" ascii_lower] by simp
qed

text \<open>
  C9 as stated fails in its remark on \<^verbatim>\<open>searchNodes\<close>: a stored relation whose endpoints
  name no stored entity is not returned by the empty query, so the empty query does not
  return the full graph. Here it returns what \<^verbatim>\<open>openNodes\<close> with the empty list returns.
\<close>

theorem searchNodes_empty_query_counterexample:
  "readGraph (Some [relation_record \<lparr>rel_from = ''Alice'', rel_to = ''Bob'', relationType = ''knows''\<rparr>]) =
     Inr \<lparr>entities = [],
          relations = [\<lparr>rel_from = ''Alice'', rel_to = ''Bob'', relationType = ''knows''\<rparr>]\<rparr> \<and>
   searchNodes ascii_lower [] (Some [relation_record \<lparr>rel_from = ''Alice'', rel_to = ''Bob'', relationType = ''knows''\<rparr>]) =
     Inr \<lparr>entities = [], relations = []\<rparr> \<and>
   openNodes [] (Some [relation_record \<lparr>rel_from = ''Alice'', rel_to = ''Bob'', relationType = ''knows''\<rparr>]) =
     Inr \<lparr>entities = [], relations = []\<rparr>"
proof -
  have l: "loadGraph (Some [relation_record \<lparr>rel_from = ''Alice'', rel_to = ''Bob'', relationType = ''knows''\<rparr>]) =
     Inr \<lparr>entities = [],
          relations = [\<lparr>rel_from = ''Alice'', rel_to = ''Bob'', relationType = ''knows''\<rparr>]\<rparr>"
    by (simp add: eval_defs)
  show ?thesis
    by (simp add: l readGraph_def searchNodes_eq [OF l] openNodes_eq [OF l] between_eq)
qed

section \<open>What a load hands to its callers\<close>

lemma zparse_string_typed: "zparse ZString v = Some w \<Longrightarrow> \<exists>s. w = JString s"
  by (cases v) auto

lemma zparse_strings_typed:
  assumes "zparse (ZArray ZString) v = Some w"
  shows "\<exists>obs. w = JArray (map JString obs)"
proof -
  from assms obtain xs ys where v: "v = JArray xs" and ys: "all_some (map (zparse ZString) xs) = Some ys"
    and w: "w = JArray ys"
    by (cases v) auto
  have "\<forall>y\<in>set ys. \<exists>s. y = JString s"
    using all_some_image [OF ys] zparse_string_typed by blast
  then have "map JString (map string_of ys) = ys"
    by (induction ys) auto
  with w show ?thesis by metis
qed

lemma zparse_entity_typed:
  assumes "zparse EntitySchema v = Some w"
  shows "\<exists>e. w = entity_json e"
proof -
  from assms obtain kvs a b c where "v = JObject kvs"
    and a: "zparse ZString a = Some (field w ''name'')"
    and b: "zparse ZString b = Some (field w ''entityType'')"
    and c: "zparse (ZArray ZString) c = Some (field w ''observations'')"
    and w: "w = JObject [(''name'', field w ''name''), (''entityType'', field w ''entityType''),
                         (''observations'', field w ''observations'')]"
    by (cases v) (auto simp: EntitySchema_def all_some_Cons property_def split: option.splits)
  from a b c obtain n t obs where "field w ''name'' = JString n" "field w ''entityType'' = JString t"
    "field w ''observations'' = JArray (map JString obs)"
    using zparse_string_typed zparse_strings_typed by metis
  with w have "w = entity_json \<lparr>name = n, entityType = t, observations = obs\<rparr>"
    by (simp add: entity_json_def)
  then show ?thesis ..
qed

lemma zparse_relation_typed:
  assumes "zparse RelationSchema v = Some w"
  shows "\<exists>r. w = relation_json r"
proof -
  from assms obtain kvs a b c where "v = JObject kvs"
    and a: "zparse ZString a = Some (field w ''from'')"
    and b: "zparse ZString b = Some (field w ''to'')"
    and c: "zparse ZString c = Some (field w ''relationType'')"
    and w: "w = JObject [(''from'', field w ''from''), (''to'', field w ''to''),
                         (''relationType'', field w ''relationType'')]"
    by (cases v) (auto simp: RelationSchema_def all_some_Cons property_def split: option.splits)
  from a b c obtain f t ty where "field w ''from'' = JString f" "field w ''to'' = JString t"
    "field w ''relationType'' = JString ty"
    using zparse_string_typed by metis
  with w have "w = relation_json \<lparr>rel_from = f, rel_to = t, relationType = ty\<rparr>"
    by (simp add: relation_json_def)
  then show ?thesis ..
qed

lemma map_json_typed:
  assumes "all_some (map f xs) = Some ys" and "\<And>v w. f v = Some w \<Longrightarrow> \<exists>e. w = to_json e"
    and "\<And>e. of_json (to_json e) = e"
  shows "map to_json (map of_json ys) = ys"
proof -
  have "\<forall>y\<in>set ys. \<exists>e. y = to_json e"
    using all_some_image [OF assms(1)] assms(2) by blast
  then have "\<forall>y\<in>set ys. to_json (of_json y) = y"
    using assms(3) by auto
  then show ?thesis by (induction ys) auto
qed

lemma zparse_graph_typed:
  assumes "zparse KnowledgeGraphSchema v = Some w"
  shows "w = graph_json (as_graph w)"
proof -
  from assms obtain kvs a b es rs where "v = JObject kvs"
    and es: "all_some (map (zparse EntitySchema) a) = Some es"
    and rs: "all_some (map (zparse RelationSchema) b) = Some rs"
    and w: "w = JObject [(''entities'', JArray es), (''relations'', JArray rs)]"
    by (cases v)
      (auto simp: KnowledgeGraphSchema_def all_some_Cons property_def
        split: option.splits json.splits)
  have "map entity_json (map as_entity es) = es"
    using es zparse_entity_typed as_entity_json by (rule map_json_typed)
  moreover have "map relation_json (map as_relation rs) = rs"
    using rs zparse_relation_typed as_relation_json by (rule map_json_typed)
  ultimately show ?thesis
    by (simp add: w graph_json_def as_graph_def property_def)
qed

lemma loadGraph_json_typed:
  assumes "loadGraph_json st = Inr j"
  shows "j = graph_json (as_graph j)"
proof (cases st)
  case None
  with assms show ?thesis
    by (auto simp: loadGraph_json_def graph_json_def as_graph_def property_def)
next
  case (Some data)
  with assms obtain v where "zparse KnowledgeGraphSchema v = Some j"
    by (auto simp: loadGraph_json_def split: sum.splits option.splits)
  then show ?thesis by (rule zparse_graph_typed)
qed

text \<open>
  C10. The value a successful load returns, taken as the JavaScript value it is, is the
  object of a typed graph: every entity in it has exactly the keys \<open>name\<close>,
  \<open>entityType\<close>, \<open>observations\<close> and every relation exactly the keys \<open>from\<close>, \<open>to\<close>,
  \<open>relationType\<close>, whatever other keys the stored records carried; the key \<open>type\<close> is
  not among them. \<^verbatim>\<open>readGraph\<close> returns that graph, and \<^verbatim>\<open>searchNodes\<close> and
  \<^verbatim>\<open>openNodes\<close> return entities and relations of that graph only, whatever the case
  mapping of \<^verbatim>\<open>toLowerCase\<close> is.
\<close>

theorem loadGraph_strips_extra_keys:
  assumes "loadGraph_json st = Inr j"
  shows
    "\<exists>g. loadGraph st = Inr g \<and> readGraph st = Inr g \<and> j = graph_json g \<and>
       elements_of (field j ''entities'') = map entity_json (entities g) \<and>
       elements_of (field j ''relations'') = map relation_json (relations g) \<and>
       (\<forall>e\<in>set (elements_of (field j ''entities'')).
          keys e = [''name'', ''entityType'', ''observations'']) \<and>
       (\<forall>r\<in>set (elements_of (field j ''relations'')).
          keys r = [''from'', ''to'', ''relationType'']) \<and>
       (\<forall>lc q. \<exists>g'. searchNodes lc q st = Inr g' \<and> set (entities g') \<subseteq> set (entities g) \<and>
                      set (relations g') \<subseteq> set (relations g)) \<and>
       (\<forall>ns. \<exists>g'. openNodes ns st = Inr g' \<and> set (entities g') \<subseteq> set (entities g) \<and>
                    set (relations g') \<subseteq> set (relations g))"
proof -
  let ?g = "as_graph j"
  have j: "j = graph_json ?g" using assms by (rule loadGraph_json_typed)
  have l: "loadGraph st = Inr ?g" using assms by (simp add: loadGraph_def)
  have es: "elements_of (field j ''entities'') = map entity_json (entities ?g)"
    by (subst j) (simp add: graph_json_def property_def)
  have rs: "elements_of (field j ''relations'') = map relation_json (relations ?g)"
    by (subst j) (simp add: graph_json_def property_def)
  have k1: "\<forall>e\<in>set (map entity_json (entities ?g)). keys e = [''name'', ''entityType'', ''observations'']"
    by (simp add: entity_json_def)
  have k2: "\<forall>r\<in>set (map relation_json (relations ?g)). keys r = [''from'', ''to'', ''relationType'']"
    by (simp add: relation_json_def)
  have sn: "\<exists>g'. searchNodes lc q st = Inr g' \<and> set (entities g') \<subseteq> set (entities ?g) \<and>
             set (relations g') \<subseteq> set (relations ?g)" for lc q
    by (simp add: searchNodes_eq [OF l] between_eq)
  have on: "\<exists>g'. openNodes ns st = Inr g' \<and> set (entities g') \<subseteq> set (entities ?g) \<and>
             set (relations g') \<subseteq> set (relations ?g)" for ns
    by (simp add: openNodes_eq [OF l] between_eq)
  show ?thesis
  proof (intro exI [of _ ?g] conjI)
    show "loadGraph st = Inr ?g" by (rule l)
    show "readGraph st = Inr ?g" by (simp add: readGraph_def l)
    show "j = graph_json ?g" by (rule j)
    show "elements_of (field j ''entities'') = map entity_json (entities ?g)" by (rule es)
    show "elements_of (field j ''relations'') = map relation_json (relations ?g)" by (rule rs)
    show "\<forall>e\<in>set (elements_of (field j ''entities'')).
            keys e = [''name'', ''entityType'', ''observations'']"
      unfolding es by (rule k1)
    show "\<forall>r\<in>set (elements_of (field j ''relations'')).
            keys r = [''from'', ''to'', ''relationType'']"
      unfolding rs by (rule k2)
    show "\<forall>lc q. \<exists>g'. searchNodes lc q st = Inr g' \<and> set (entities g') \<subseteq> set (entities ?g) \<and>
             set (relations g') \<subseteq> set (relations ?g)"
      using sn by blast
    show "\<forall>ns. \<exists>g'. openNodes ns st = Inr g' \<and> set (entities g') \<subseteq> set (entities ?g) \<and>
             set (relations g') \<subseteq> set (relations ?g)"
      using on by blast
  qed
qed

theorem loadGraph_strips_extra_keys_witness:
  "loadGraph_json
     (Some [Record (JObject [(''type'', JString ''entity''), (''name'', JString ''Alice''),
                             (''id'', JNumber 7), (''entityType'', JString ''person''),
                             (''observations'', JArray [JString ''likes tea'']),
                             (''extra'', JObject [(''nested'', JBool True)])]),
            Blank,
            Record (JObject [(''from'', JString ''Alice''), (''to'', JString ''Bob''),
                             (''relationType'', JString ''knows''), (''weight'', JNumber 3),
                             (''type'', JString ''relation'')])]) =
     Inr (JObject
            [(''entities'',
              JArray [JObject [(''name'', JString ''Alice''), (''entityType'', JString ''person''),
                               (''observations'', JArray [JString ''likes tea''])]]),
             (''relations'',
              JArray [JObject [(''from'', JString ''Alice''), (''to'', JString ''Bob''),
                               (''relationType'', JString ''knows'')]])]) \<and>
   readGraph
     (Some [Record (JObject [(''type'', JString ''entity''), (''name'', JString ''Alice''),
                             (''id'', JNumber 7), (''entityType'', JString ''person''),
                             (''observations'', JArray [JString ''likes tea'']),
                             (''extra'', JObject [(''nested'', JBool True)])]),
            Blank,
            Record (JObject [(''from'', JString ''Alice''), (''to'', JString ''Bob''),
                             (''relationType'', JString ''knows''), (''weight'', JNumber 3),
                             (''type'', JString ''relation'')])]) =
     Inr \<lparr>entities = [\<lparr>name = ''Alice'', entityType = ''person'', observations = [''likes tea'']\<rparr>],
          relations = [\<lparr>rel_from = ''Alice'', rel_to = ''Bob'', relationType = ''knows''\<rparr>]\<rparr>"
proof -
  have l: "loadGraph_json
     (Some [Record (JObject [(''type'', JString ''entity''), (''name'', JString ''Alice''),
                             (''id'', JNumber 7), (''entityType'', JString ''person''),
                             (''observations'', JArray [JString ''likes tea'']),
                             (''extra'', JObject [(''nested'', JBool True)])]),
            Blank,
            Record (JObject [(''from'', JString ''Alice''), (''to'', JString ''Bob''),
                             (''relationType'', JString ''knows''), (''weight'', JNumber 3),
                             (''type'', JString ''relation'')])]) =
     Inr (JObject
            [(''entities'',
              JArray [JObject [(''name'', JString ''Alice''), (''entityType'', JString ''person''),
                               (''observations'', JArray [JString ''likes tea''])]]),
             (''relations'',
              JArray [JObject [(''from'', JString ''Alice''), (''to'', JString ''Bob''),
                               (''relationType'', JString ''knows'')]])])"
    by (simp add: eval_defs)
  show ?thesis
    using loadGraph_strips_extra_keys [OF l]
    by (auto simp: l graph_json_def entity_json_def relation_json_def)
qed

end
